theory Spec2Isabelle
  imports Main "HOL-Library.Word"
begin

unbundle bit_operations_syntax

section \<open>Go values used by the shell command\<close>

text \<open>
  The command \<open>pscale shell\<close> (internal/cmd/shell/shell.go) is a sequence of calls to
  collaborators (the PlanetScale API client, the proxy, the file system, the mysql
  client) with an early return after each one that fails. The model passes an explicit
  state through that sequence and reads the result of every collaborator call from a
  record of the run's environment, so that every return of the source is a branch.
\<close>

subsection \<open>Strings\<close>

definition newline :: string where
  "newline = [CHR 0x0A]"

text \<open>\<open>strings.HasPrefix\<close> and \<open>strings.Contains\<close> of the Go library.\<close>

fun HasPrefix :: "string \<Rightarrow> string \<Rightarrow> bool" where
  "HasPrefix s [] = True"
| "HasPrefix [] (p # ps) = False"
| "HasPrefix (c # cs) (p # ps) = (c = p \<and> HasPrefix cs ps)"

fun Contains :: "string \<Rightarrow> string \<Rightarrow> bool" where
  "Contains [] substr = (substr = [])"
| "Contains (c # cs) substr = (HasPrefix (c # cs) substr \<or> Contains cs substr)"

text \<open>\<open>strings.Join\<close>: the elements with the separator between them.\<close>

fun strings_Join :: "string list \<Rightarrow> string \<Rightarrow> string" where
  "strings_Join [] sep = []"
| "strings_Join [e] sep = e"
| "strings_Join (e # e' # es) sep = e @ sep @ strings_Join (e' # es) sep"

text \<open>\<open>strconv.Itoa\<close> on a non-negative number.\<close>

definition digit :: "nat \<Rightarrow> char" where
  "digit d = (''0123456789'' ! d)"

fun Itoa :: "nat \<Rightarrow> string" where
  "Itoa n = (if n < 10 then [digit n] else Itoa (n div 10) @ [digit (n mod 10)])"

subsection \<open>Errors\<close>

text \<open>
  A Go \<open>error\<close> value: one made by \<open>errors.New\<close> or \<open>fmt.Errorf\<close> (or any error of a
  collaborator, by its message), or the \<open>*exec.ExitError\<close> of a child process that
  exited with a non-zero status. \<open>Error\<close> is the value's \<open>Error()\<close> method, which the
  verb \<open>%s\<close> prints.
\<close>

datatype error = ErrorString string | ExitError nat

fun Error :: "error \<Rightarrow> string" where
  "Error (ErrorString msg) = msg"
| "Error (ExitError status) = ''exit status '' @ Itoa status"

text \<open>
  How a call of the command's \<open>RunE\<close> ends: it returns (\<open>nil\<close> or an error), or the
  process is terminated by \<open>log.Fatal\<close>, which prints the error and calls \<open>os.Exit(1)\<close>
  without running deferred calls, or it panics (an index out of range).
\<close>

datatype outcome = Return "error option" | Fatal error | Panic

type_synonym ErrorCode = string

definition ErrNotFound :: ErrorCode where
  "ErrNotFound = ''not_found''"

subsection \<open>Files, commands and the state of a run\<close>

record File =
  contents :: string
  perm :: "32 word"

text \<open>An \<open>exec.Cmd\<close>: \<open>Args\<close> holds the command name first, as in Go.\<close>

record Cmd =
  Path :: string
  Args :: "string list"
  Env :: "string list"
  Dir :: string

record proxy_Options =
  LocalAddr :: string
  RemoteAddr :: string
  Instance :: string

text \<open>
  The components of the specification, recorded in \<open>trace\<close> at the call that starts
  each: \<open>promptutil.GetBranch\<close> (Resolver), \<open>DatabaseBranches.Get\<close> (Validator),
  \<open>go p.Run(ctx)\<close> (TunnelStart), \<open>DatabaseBranches.GetStatus\<close> (CredentialBroker),
  \<open>createLoginFile\<close> (CredentialFile), \<open>checkLibs\<close> (CapabilityDetector), \<open>c.Start()\<close>
  (Launcher) and the deferred \<open>os.Remove\<close> (CredentialFileRemoval).
\<close>

datatype component =
  Resolver | Validator | TunnelStart | CredentialBroker | CredentialFile
  | CapabilityDetector | Launcher | CredentialFileRemoval

record state =
  files :: "string \<rightharpoonup> File"
  printed :: "string list"
  trace :: "component list"
  tunnel :: "proxy_Options option"
  proc :: "Cmd option"

datatype Format = Human | JSON | CSV

record Credentials =
  User :: string
  Password :: string

text \<open>
  The environment of one run: what each collaborator outside shell.go returns when the
  command calls it. Every collaborator is called at most once in a run, apart from the
  writes to the credential file, which are numbered. The functions of the repository
  that shell.go calls and that are not part of the sources at hand (\<open>cmdutil.ErrCode\<close>,
  \<open>cmdutil.HandleError\<close>, \<open>printer.Bold\<close>, \<open>printer.BoldBlue\<close>, \<open>printer.BoldRed\<close>) are
  parameters as well.
\<close>

record env =
  IsTTY :: bool
  Format :: Format
  Debug :: bool
  Organization :: string
  flag_localAddr :: string
  flag_remoteAddr :: string
  MySQLClientPath :: "error + string"
  NewClientFromConfig :: "error option"
  GetBranch :: "error + string"
  DatabaseBranches_Get :: "error option"
  ErrCode :: "error \<Rightarrow> ErrorCode"
  HandleError :: "error \<Rightarrow> error"
  Bold :: "string \<Rightarrow> string"
  BoldBlue :: "string \<Rightarrow> string"
  BoldRed :: "string \<Rightarrow> string"
  proxy_NewClient :: "error option"
  DatabaseBranches_GetStatus :: "error + Credentials"
  TempFile :: "error + string"
  Write :: "nat \<Rightarrow> nat option"
  Close :: "error option"
  Remove :: "error option"
  proxy_LocalAddr :: "error + string"
  SplitHostPort :: "string \<Rightarrow> error + (string \<times> string)"
  homedir_Dir :: "error + string"
  Stat_IsNotExist :: "string \<Rightarrow> bool"
  MkdirAll :: "string \<Rightarrow> error option"
  Environ :: "string list"
  GOOS :: string
  CombinedOutput :: "string \<Rightarrow> string list \<Rightarrow> string \<times> error option"
  Start :: "error option"
  Wait :: "error option"

section \<open>The credential file\<close>

text \<open>
  \<open>(*os.File).Write\<close> as \<open>fmt.Fprintln\<close> and \<open>fmt.Fprintf\<close> call it: write number \<open>i\<close> of
  the run either writes all of \<open>data\<close> (\<open>Write ch i = None\<close>) or fails after \<open>k\<close> bytes
  (\<open>Write ch i = Some k\<close>). The result is the error, which createLoginFile drops.
\<close>

definition Fprint :: "env \<Rightarrow> nat \<Rightarrow> string \<Rightarrow> string \<Rightarrow> state \<Rightarrow> bool \<times> state" where
  "Fprint ch i name data s =
     (case files s name of
        None \<Rightarrow> (False, s)
      | Some f \<Rightarrow>
          (case Write ch i of
             None \<Rightarrow> (True, s\<lparr>files := (files s)(name \<mapsto> f\<lparr>contents := contents f @ data\<rparr>)\<rparr>)
           | Some k \<Rightarrow>
               (False, s\<lparr>files := (files s)(name \<mapsto> f\<lparr>contents := contents f @ take k data\<rparr>)\<rparr>)))"

text \<open>
  \<open>createLoginFile\<close> (shell.go, lines 241-253). \<open>ioutil.TempFile("", "pscale-*")\<close> makes a
  new file with permissions 0600 (octal; 0x180) under a name the system picks. The
  results of the three writes and of \<open>Close\<close> are not looked at.
\<close>

definition createLoginFile ::
  "env \<Rightarrow> string \<Rightarrow> string \<Rightarrow> state \<Rightarrow> (string \<times> error option) \<times> state" where
  "createLoginFile ch username password s =
     (case TempFile ch of
        Inl err \<Rightarrow>
          (([], Some err),
           s\<lparr>printed := printed s @ [''could not create temporary file:  '' @ Error err]\<rparr>)
      | Inr tmpFile \<Rightarrow>
          (let s0 = s\<lparr>files := (files s)(tmpFile \<mapsto> \<lparr>contents = [], perm = 0x180\<rparr>)\<rparr>;
               s1 = snd (Fprint ch 0 tmpFile (''[client]'' @ newline) s0);
               s2 = snd (Fprint ch 1 tmpFile (''user='' @ username @ newline) s1);
               s3 = snd (Fprint ch 2 tmpFile (''password='' @ password @ newline) s2)
           in ((tmpFile, None), s3)))"

text \<open>What write number \<open>i\<close> of the run leaves in the file when it is given \<open>data\<close>.\<close>

definition written :: "env \<Rightarrow> nat \<Rightarrow> string \<Rightarrow> string" where
  "written ch i data = (case Write ch i of None \<Rightarrow> data | Some k \<Rightarrow> take k data)"

section \<open>The history file\<close>

text \<open>
  \<open>filepath.Clean\<close> and \<open>filepath.Join\<close> of the Go library, for paths separated by
  \<open>/\<close> (darwin, linux), by the rules of their documentation: empty elements and \<open>.\<close>
  are dropped, \<open>..\<close> removes the element before it, stays at the front of a relative
  path and is dropped at the root; the empty path is \<open>.\<close>. \<open>Clean_elem\<close> keeps the
  elements written so far with the last one first.
\<close>

fun split_sep :: "string \<Rightarrow> string list" where
  "split_sep [] = [[]]"
| "split_sep (c # cs) =
     (if c = CHR ''/'' then [] # split_sep cs
      else (case split_sep cs of [] \<Rightarrow> [[c]] | e # es \<Rightarrow> (c # e) # es))"

definition Clean_elem :: "bool \<Rightarrow> string list \<Rightarrow> string \<Rightarrow> string list" where
  "Clean_elem rooted out e =
     (if e = [] \<or> e = ''.'' then out
      else if e = ''..'' then
        (case out of
           [] \<Rightarrow> if rooted then [] else [''..'']
         | e' # rest \<Rightarrow> if e' = ''..'' then (if rooted then out else ''..'' # out) else rest)
      else e # out)"

definition Clean :: "string \<Rightarrow> string" where
  "Clean path =
     (if path = [] then ''.''
      else let rooted = (hd path = CHR ''/'');
               out = foldl (Clean_elem rooted) [] (split_sep path);
               body = strings_Join (rev out) ''/''
           in if rooted then ''/'' @ body else if body = [] then ''.'' else body)"

definition filepath_Join :: "string list \<Rightarrow> string" where
  "filepath_Join elem =
     (case dropWhile (\<lambda>e. e = []) elem of
        [] \<Rightarrow> []
      | e # es \<Rightarrow> Clean (strings_Join (e # es) ''/''))"

text \<open>
  \<open>historyFilePath\<close> (shell.go, lines 208-228). \<open>Stat_IsNotExist ch d\<close> is
  \<open>os.IsNotExist\<close> of the error of \<open>os.Stat(d)\<close>.
\<close>

definition historyFilePath :: "env \<Rightarrow> string \<Rightarrow> string \<Rightarrow> string \<Rightarrow> error + string" where
  "historyFilePath ch org db branch =
     (case homedir_Dir ch of
        Inl err \<Rightarrow> Inl err
      | Inr dir \<Rightarrow>
          (let historyDir = filepath_Join [dir, ''.pscale'', ''history''] in
           (case (if Stat_IsNotExist ch historyDir then MkdirAll ch historyDir else None) of
              Some err \<Rightarrow> Inl err
            | None \<Rightarrow>
                (let historyFilename = org @ ''.'' @ db @ ''.'' @ branch;
                     historyFile = filepath_Join [historyDir, historyFilename]
                 in Inr historyFile))))"

section \<open>The mysql client\<close>

text \<open>\<open>formatMySQLBranch\<close> (shell.go, lines 230-237).\<close>

definition formatMySQLBranch :: "env \<Rightarrow> string \<Rightarrow> string \<Rightarrow> string" where
  "formatMySQLBranch ch database branch =
     (let branchStyled = BoldBlue ch branch;
          branchStyled = (if branch = ''main'' then BoldRed ch branch else branchStyled)
      in Bold ch database @ ''/'' @ branchStyled @ ''> '')"

text \<open>\<open>isLinked\<close> (lines 333-340) and \<open>checkLibs\<close> (lines 306-329).\<close>

definition isLinked :: "string \<Rightarrow> bool" where
  "isLinked libs =
     (if Contains libs ''libreadline'' \<or> Contains libs ''libedit'' then True else False)"

definition checkLibs :: "env \<Rightarrow> string \<Rightarrow> bool \<times> error option" where
  "checkLibs ch mysqlPath =
     (let (name, args) = (if GOOS ch = ''darwin'' then (''otool'', [''-L'']) else ([], []))
      in if GOOS ch = ''linux'' then (False, None)
         else if GOOS ch = ''unix'' then (False, None)
         else
           (let args = args @ [mysqlPath] in
            (case CombinedOutput ch name args of
               (out, Some err) \<Rightarrow>
                 (False, Some (ErrorString (''failed to check linking: '' @ Error err
                                            @ newline @ ''output: '' @ out)))
             | (out, None) \<Rightarrow> (isLinked out, None))))"

text \<open>The struct \<open>mysql\<close>; its fields carry the prefix \<open>m_\<close>.\<close>

record mysql =
  m_mysqlPath :: string
  m_dir :: string
  m_styledBranch :: string
  m_historyFile :: string
  m_debug :: bool

text \<open>
  \<open>(*mysql).Run\<close> (lines 265-302). The started command is kept in \<open>proc\<close>. When
  \<open>c.Start()\<close> fails the process ends in \<open>log.Fatal\<close>.
\<close>

definition mysql_Run :: "env \<Rightarrow> mysql \<Rightarrow> string list \<Rightarrow> state \<Rightarrow> outcome \<times> state" where
  "mysql_Run ch m args s =
     (let c = \<lparr>Path = m_mysqlPath m, Args = m_mysqlPath m # args, Env = [], Dir = []\<rparr>;
          c = (if m_dir m \<noteq> [] then c\<lparr>Dir := m_dir m\<rparr> else c);
          c = c\<lparr>Env := Environ ch @ [''MYSQL_HISTFILE='' @ m_historyFile m]\<rparr>;
          (linked, err) = checkLibs ch (m_mysqlPath m);
          s = s\<lparr>trace := trace s @ [CapabilityDetector]\<rparr>;
          s = (if m_debug m then
                 (case err of
                    Some e \<Rightarrow> s\<lparr>printed := printed s @ [''failed to check linking: '' @ Error e]\<rparr>
                  | None \<Rightarrow>
                      if linked
                      then s\<lparr>printed := printed s @ [''mysql is linked against readline/editline'']\<rparr>
                      else s\<lparr>printed := printed s
                                 @ [''mysql is not linked against readline/editline'']\<rparr>)
               else s);
          c = (if linked then c\<lparr>Env := Env c @ [''MYSQL_PS1='' @ m_styledBranch m]\<rparr> else c);
          s = s\<lparr>trace := trace s @ [Launcher]\<rparr>
      in (case Start ch of
            Some err \<Rightarrow> (Fatal err, s)
          | None \<Rightarrow> (Return (Wait ch), s\<lparr>proc := Some c\<rparr>)))"

section \<open>The shell command\<close>

text \<open>
  \<open>os.Remove\<close>, and the deferred call of it: deferred calls run when \<open>RunE\<close> returns
  and do not run when \<open>log.Fatal\<close> ends the process.
\<close>

definition os_Remove :: "env \<Rightarrow> string \<Rightarrow> state \<Rightarrow> state" where
  "os_Remove ch name s =
     (let s = s\<lparr>trace := trace s @ [CredentialFileRemoval]\<rparr>
      in (case Remove ch of
            None \<Rightarrow> s\<lparr>files := (files s)(name := None)\<rparr>
          | Some err \<Rightarrow> s))"

definition deferred_Remove :: "env \<Rightarrow> string \<Rightarrow> outcome \<times> state \<Rightarrow> outcome \<times> state" where
  "deferred_Remove ch name r =
     (case fst r of
        Fatal err \<Rightarrow> r
      | Return err \<Rightarrow> (fst r, os_Remove ch name (snd r))
      | Panic \<Rightarrow> (fst r, os_Remove ch name (snd r)))"

text \<open>
  The function \<open>RunE\<close> of \<open>ShellCmd\<close> (lines 56-195) is modelled in four parts, last
  part first. Lines 159-193: what runs once the credential file is written, under the
  deferred \<open>os.Remove\<close>.
\<close>

definition RunE_session ::
  "env \<Rightarrow> string \<Rightarrow> string \<Rightarrow> string \<Rightarrow> string \<Rightarrow> state \<Rightarrow> outcome \<times> state" where
  "RunE_session ch mysqlPath database branch tmpFile s =
     (case proxy_LocalAddr ch of
        Inl err \<Rightarrow> (Return (Some err), s)
      | Inr addr \<Rightarrow>
          (case SplitHostPort ch addr of
             Inl err \<Rightarrow> (Return (Some err), s)
           | Inr (host, port) \<Rightarrow>
               (let mysqlArgs = [''--defaults-extra-file='' @ tmpFile, ''-s'', ''-t'',
                                 ''-h'', host, ''-P'', port]
                in (case historyFilePath ch (Organization ch) database branch of
                      Inl err \<Rightarrow> (Return (Some err), s)
                    | Inr historyFile \<Rightarrow>
                        (let styledBranch = formatMySQLBranch ch database branch;
                             m = \<lparr>m_mysqlPath = mysqlPath, m_dir = [], m_styledBranch = styledBranch,
                                  m_historyFile = historyFile, m_debug = Debug ch\<rparr>
                         in mysql_Run ch m mysqlArgs s)))))"

text \<open>
  Lines 151-157: the credential file is written, and its removal is deferred as soon
  as it has a name, before the error of createLoginFile is looked at.
\<close>

definition RunE_login ::
  "env \<Rightarrow> string \<Rightarrow> string \<Rightarrow> string \<Rightarrow> Credentials \<Rightarrow> state \<Rightarrow> outcome \<times> state" where
  "RunE_login ch mysqlPath database branch status s =
     (let ((tmpFile, err), s) =
            createLoginFile ch (User status) (Password status)
              (s\<lparr>trace := trace s @ [CredentialFile]\<rparr>);
          r = (case err of
                 Some e \<Rightarrow> (Return (Some e), s)
               | None \<Rightarrow> RunE_session ch mysqlPath database branch tmpFile s)
      in if tmpFile \<noteq> [] then deferred_Remove ch tmpFile r else r)"

text \<open>
  Lines 102-149: the proxy client is made and \<open>go p.Run(ctx)\<close> starts it, then the
  status of the branch is asked for. The goroutine is recorded where it is started;
  what it prints while it runs beside the session is not part of the model.
\<close>

definition RunE_proxy ::
  "env \<Rightarrow> string \<Rightarrow> string \<Rightarrow> string \<Rightarrow> state \<Rightarrow> outcome \<times> state" where
  "RunE_proxy ch mysqlPath database branch s =
     (let localAddr = ''127.0.0.1'' @ '':0'';
          localAddr = (if flag_localAddr ch \<noteq> [] then flag_localAddr ch else localAddr);
          proxyOpts = \<lparr>LocalAddr = localAddr, RemoteAddr = flag_remoteAddr ch,
                       Instance = Organization ch @ ''/'' @ database @ ''/'' @ branch\<rparr>
      in (case proxy_NewClient ch of
            Some err \<Rightarrow>
              (Return (Some (ErrorString (''couldn'' @ [CHR 0x27] @ ''t create proxy client: ''
                                          @ Error err))), s)
          | None \<Rightarrow>
              (let s = s\<lparr>tunnel := Some proxyOpts, trace := trace s @ [TunnelStart]\<rparr>;
                   s = s\<lparr>trace := trace s @ [CredentialBroker]\<rparr>
               in (case DatabaseBranches_GetStatus ch of
                     Inl err \<Rightarrow>
                       if ErrCode ch err = ErrNotFound
                       then (Return (Some (ErrorString
                               (''branch '' @ BoldBlue ch branch
                                @ '' does not exist in database '' @ BoldBlue ch database
                                @ '' (organization: '' @ BoldBlue ch (Organization ch)
                                @ '')''))), s)
                       else (Return (Some (HandleError ch err)), s)
                   | Inr status \<Rightarrow>
                       if User status = []
                       then (Return (Some (ErrorString ''database branch is not ready yet'')), s)
                       else RunE_login ch mysqlPath database branch status s))))"

text \<open>
  \<open>RunE\<close> of \<open>ShellCmd\<close> (lines 56-195), whose lines 56-100 are here: the checks before
  anything is created, the choice of the branch and its lookup.
\<close>

definition RunE :: "env \<Rightarrow> string list \<Rightarrow> state \<Rightarrow> outcome \<times> state" where
  "RunE ch args s =
     (case args of
        [] \<Rightarrow> (Panic, s)
      | database # _ \<Rightarrow>
          if \<not> IsTTY ch \<or> Format ch \<noteq> Human
          then (Return (Some (ErrorString ''pscale shell only works in interactive mode'')), s)
          else
            (case MySQLClientPath ch of
               Inl err \<Rightarrow> (Return (Some err), s)
             | Inr mysqlPath \<Rightarrow>
                 (case NewClientFromConfig ch of
                    Some err \<Rightarrow> (Return (Some err), s)
                  | None \<Rightarrow>
                      (let branch = (if length args = 2 then args ! 1 else []);
                           (r, s) = (if branch = []
                                     then (GetBranch ch, s\<lparr>trace := trace s @ [Resolver]\<rparr>)
                                     else (Inr branch, s))
                       in (case r of
                             Inl err \<Rightarrow> (Return (Some err), s)
                           | Inr branch \<Rightarrow>
                               (let s = s\<lparr>trace := trace s @ [Validator]\<rparr>
                                in (case DatabaseBranches_Get ch of
                                      Some err \<Rightarrow>
                                        if ErrCode ch err = ErrNotFound
                                        then (Return (Some (ErrorString
                                                (''database '' @ BoldBlue ch database
                                                 @ '' and branch '' @ BoldBlue ch branch
                                                 @ '' does not exist in organization ''
                                                 @ BoldBlue ch (Organization ch)))), s)
                                        else (Return (Some (HandleError ch err)), s)
                                    | None \<Rightarrow>
                                        RunE_proxy ch mysqlPath database branch s)))))))"

section \<open>A concrete run\<close>

text \<open>
  The end-to-end scenario of the specification: organization \<open>acme\<close>, database \<open>shop\<close>,
  branch \<open>main\<close>, credentials \<open>shop_ro\<close> and \<open>secret\<close>, the tunnel bound to
  \<open>127.0.0.1:54321\<close>, on darwin with a mysql client linked against libedit, and a
  terminal that shows the printer's styles as ANSI escape sequences. Every collaborator
  succeeds; the theorems below change one answer at a time.
\<close>

definition esc :: string where
  "esc = [CHR 0x1B]"

definition acme_run :: env where
  "acme_run =
     \<lparr>IsTTY = True, Format = Human, Debug = False, Organization = ''acme'',
      flag_localAddr = [], flag_remoteAddr = [],
      MySQLClientPath = Inr ''/usr/local/bin/mysql'',
      NewClientFromConfig = None,
      GetBranch = Inr ''main'',
      DatabaseBranches_Get = None,
      ErrCode = (\<lambda>err. if err = ErrorString ''Not Found'' then ErrNotFound else []),
      HandleError = (\<lambda>err. err),
      Bold = (\<lambda>msg. esc @ ''[1m'' @ msg @ esc @ ''[0m''),
      BoldBlue = (\<lambda>msg. esc @ ''[34;1m'' @ msg @ esc @ ''[0m''),
      BoldRed = (\<lambda>msg. esc @ ''[31;1m'' @ msg @ esc @ ''[0m''),
      proxy_NewClient = None,
      DatabaseBranches_GetStatus = Inr \<lparr>User = ''shop_ro'', Password = ''secret''\<rparr>,
      TempFile = Inr ''/tmp/pscale-123456789'',
      Write = (\<lambda>i. None), Close = None, Remove = None,
      proxy_LocalAddr = Inr ''127.0.0.1:54321'',
      SplitHostPort = (\<lambda>hostport. if hostport = ''127.0.0.1:54321''
                                  then Inr (''127.0.0.1'', ''54321'')
                                  else Inl (ErrorString ''missing port in address'')),
      homedir_Dir = Inr ''/Users/op'',
      Stat_IsNotExist = (\<lambda>name. False),
      MkdirAll = (\<lambda>name. None),
      Environ = [''HOME=/Users/op''],
      GOOS = ''darwin'',
      CombinedOutput = (\<lambda>name arg. if name = ''otool''
                                     then (''/usr/lib/libedit.3.dylib'', None)
                                     else ([], Some (ErrorString ''exec: no command''))),
      Start = None, Wait = None\<rparr>"

definition fresh :: state where
  "fresh = \<lparr>files = Map.empty, printed = [], trace = [], tunnel = None, proc = None\<rparr>"

text \<open>The disk is full: every write fails at its first byte and \<open>Close\<close> fails too.\<close>

definition disk_full :: env where
  "disk_full = acme_run\<lparr>Write := (\<lambda>i. Some 0),
                         Close := Some (ErrorString ''no space left on device'')\<rparr>"

text \<open>The same run with one answer changed.\<close>

definition spawn_fails :: env where
  "spawn_fails =
     acme_run\<lparr>Start := Some (ErrorString
                  ''fork/exec /usr/local/bin/mysql: permission denied'')\<rparr>"

definition client_exits_1 :: env where
  "client_exits_1 = acme_run\<lparr>Wait := Some (ExitError 1)\<rparr>"

definition branch_missing :: env where
  "branch_missing = acme_run\<lparr>DatabaseBranches_Get := Some (ErrorString ''Not Found'')\<rparr>"

definition no_client :: env where
  "no_client =
     acme_run\<lparr>MySQLClientPath :=
                 Inl (ErrorString ''couldn't find the mysql command-line tool'')\<rparr>"

definition on_linux :: env where
  "on_linux = acme_run\<lparr>GOOS := ''linux''\<rparr>"

text \<open>A platform the switch of \<open>checkLibs\<close> does not name.\<close>

definition on_freebsd :: env where
  "on_freebsd = acme_run\<lparr>GOOS := ''freebsd''\<rparr>"

definition otool_fails :: env where
  "otool_fails =
     acme_run\<lparr>CombinedOutput := (\<lambda>name arg. (''otool: error'', Some (ExitError 1)))\<rparr>"

text \<open>The command that the run of the scenario starts.\<close>

definition acme_cmd :: Cmd where
  "acme_cmd =
     \<lparr>Path = ''/usr/local/bin/mysql'',
      Args = [''/usr/local/bin/mysql'', ''--defaults-extra-file=/tmp/pscale-123456789'',
              ''-s'', ''-t'', ''-h'', ''127.0.0.1'', ''-P'', ''54321''],
      Env = [''HOME=/Users/op'',
             ''MYSQL_HISTFILE=/Users/op/.pscale/history/acme.shop.main'',
             ''MYSQL_PS1='' @ esc @ ''[1mshop'' @ esc @ ''[0m/'' @ esc @ ''[31;1mmain''
               @ esc @ ''[0m> ''],
      Dir = []\<rparr>"

section \<open>Notions the properties are stated with\<close>

text \<open>A call of \<open>RunE\<close> that comes back to its caller, with \<open>nil\<close> or with an error.\<close>

fun returned :: "outcome \<Rightarrow> bool" where
  "returned (Return err) = True"
| "returned (Fatal err) = False"
| "returned Panic = False"

text \<open>A path that shows in an argument, or in an entry of the environment, of a command.\<close>

definition in_arguments :: "Cmd \<Rightarrow> string \<Rightarrow> bool" where
  "in_arguments c path = list_ex (\<lambda>arg. Contains arg path) (Args c)"

definition in_environment :: "Cmd \<Rightarrow> string \<Rightarrow> bool" where
  "in_environment c path = list_ex (\<lambda>entry. Contains entry path) (Env c)"

text \<open>
  The place of each component in the order in which shell.go calls them, and in the
  control flow the specification gives (Resolver, Validator, Broker, then credential
  file and tunnel start, then Capability Detector, then Launcher).
\<close>

fun code_rank :: "component \<Rightarrow> nat" where
  "code_rank Resolver = 0"
| "code_rank Validator = 1"
| "code_rank TunnelStart = 2"
| "code_rank CredentialBroker = 3"
| "code_rank CredentialFile = 4"
| "code_rank CapabilityDetector = 5"
| "code_rank Launcher = 6"
| "code_rank CredentialFileRemoval = 7"

fun spec_rank :: "component \<Rightarrow> nat" where
  "spec_rank Resolver = 0"
| "spec_rank Validator = 1"
| "spec_rank CredentialBroker = 2"
| "spec_rank CredentialFile = 3"
| "spec_rank TunnelStart = 3"
| "spec_rank CapabilityDetector = 4"
| "spec_rank Launcher = 5"
| "spec_rank CredentialFileRemoval = 6"

text \<open>The components of a list come in the code's order, none before place \<open>k\<close>.\<close>

fun ranked_from :: "nat \<Rightarrow> component list \<Rightarrow> bool" where
  "ranked_from k [] = True"
| "ranked_from k (c # cs) = (k \<le> code_rank c \<and> ranked_from (Suc (code_rank c)) cs)"

section \<open>Properties of the credential file\<close>

lemma Fprint_written:
  "files s name = Some f \<Longrightarrow>
   files (snd (Fprint ch i name data s)) name
     = Some (f\<lparr>contents := contents f @ written ch i data\<rparr>)"
  by (simp add: Fprint_def written_def split: option.splits)

lemma createLoginFile_file:
  assumes "TempFile ch = Inr tmpFile"
  shows "fst (createLoginFile ch u p s) = (tmpFile, None)"
    and "files (snd (createLoginFile ch u p s)) tmpFile =
           Some \<lparr>contents = written ch 0 (''[client]'' @ newline)
                              @ written ch 1 (''user='' @ u @ newline)
                              @ written ch 2 (''password='' @ p @ newline),
                 perm = 0x180\<rparr>"
  using assms by (simp_all add: createLoginFile_def Fprint_written)

text \<open>
  C3. For every username \<open>u\<close> and password \<open>p\<close>: when the temporary file can be opened
  and the three writes succeed, createLoginFile returns the file's name and no error,
  and the file holds exactly the line \<open>[client]\<close>, the line \<open>user=u\<close> and the line
  \<open>password=p\<close>, nothing else; its permissions are 0600, so no bit of group or others
  (octal 077, 0x3F) is set.
\<close>

theorem createLoginFile_stanza:
  assumes "TempFile ch = Inr tmpFile"
    and "Write ch 0 = None" and "Write ch 1 = None" and "Write ch 2 = None"
  shows "fst (createLoginFile ch u p s) = (tmpFile, None)
       \<and> (\<exists>f. files (snd (createLoginFile ch u p s)) tmpFile = Some f
              \<and> contents f = ''[client]'' @ newline @ ''user='' @ u @ newline
                               @ ''password='' @ p @ newline
              \<and> perm f = 0x180
              \<and> perm f AND 0x3F = 0)"
proof -
  have "(0x180 :: 32 word) AND 0x3F = 0"
    by simp
  then show ?thesis
    using assms createLoginFile_file [OF assms(1), of u p s]
    by (simp add: written_def)
qed

theorem createLoginFile_stanza_witness:
  "TempFile acme_run = Inr ''/tmp/pscale-123456789''
   \<and> Write acme_run 0 = None \<and> Write acme_run 1 = None \<and> Write acme_run 2 = None
   \<and> fst (createLoginFile acme_run ''u'' ''p'' fresh) = (''/tmp/pscale-123456789'', None)
   \<and> (\<exists>f. files (snd (createLoginFile acme_run ''u'' ''p'' fresh)) ''/tmp/pscale-123456789''
             = Some f
          \<and> contents f = ''[client]'' @ newline @ ''user=u'' @ newline @ ''password=p'' @ newline
          \<and> perm f = 0x180
          \<and> perm f AND 0x3F = 0)"
proof -
  have t: "TempFile acme_run = Inr ''/tmp/pscale-123456789''"
    and w: "Write acme_run 0 = None" "Write acme_run 1 = None" "Write acme_run 2 = None"
    by (simp_all add: acme_run_def)
  from createLoginFile_stanza [OF t w, of "''u''" "''p''" fresh] t w
  show ?thesis by simp
qed

text \<open>
  C10. Whenever the temporary file could be opened, createLoginFile returns its name
  and no error, whatever the three writes and \<open>Close\<close> did: the file then holds only
  what each write managed to write, which can be a part of the stanza or nothing.
\<close>

theorem createLoginFile_drops_write_errors:
  assumes "TempFile ch = Inr tmpFile"
  shows "fst (createLoginFile ch u p s) = (tmpFile, None)
       \<and> files (snd (createLoginFile ch u p s)) tmpFile =
           Some \<lparr>contents = written ch 0 (''[client]'' @ newline)
                              @ written ch 1 (''user='' @ u @ newline)
                              @ written ch 2 (''password='' @ p @ newline),
                 perm = 0x180\<rparr>"
  using createLoginFile_file [OF assms] by simp

theorem createLoginFile_drops_write_errors_witness:
  "TempFile disk_full = Inr ''/tmp/pscale-123456789''
   \<and> Write disk_full 0 = Some 0 \<and> Close disk_full \<noteq> None
   \<and> fst (createLoginFile disk_full ''shop_ro'' ''secret'' fresh)
       = (''/tmp/pscale-123456789'', None)
   \<and> files (snd (createLoginFile disk_full ''shop_ro'' ''secret'' fresh))
        ''/tmp/pscale-123456789'' = Some \<lparr>contents = [], perm = 0x180\<rparr>"
proof -
  have t: "TempFile disk_full = Inr ''/tmp/pscale-123456789''"
    by (simp add: disk_full_def acme_run_def)
  have w: "written disk_full i data = []" for i data
    by (simp add: written_def disk_full_def)
  from createLoginFile_drops_write_errors [OF t, of "''shop_ro''" "''secret''" fresh] t w
  show ?thesis by (simp add: disk_full_def)
qed

section \<open>Substrings\<close>

lemma HasPrefix_iff: "HasPrefix s p \<longleftrightarrow> (\<exists>post. s = p @ post)"
  by (induction s p rule: HasPrefix.induct) auto

lemma Contains_iff: "Contains s substr \<longleftrightarrow> (\<exists>pre post. s = pre @ substr @ post)"
proof (induction s)
  case Nil
  then show ?case by simp
next
  case (Cons c cs)
  have "(\<exists>pre post. c # cs = pre @ substr @ post) \<longleftrightarrow>
        (\<exists>post. c # cs = substr @ post) \<or> (\<exists>pre post. cs = pre @ substr @ post)"
    (is "?l \<longleftrightarrow> ?r")
  proof
    assume ?l
    then obtain pre post where e: "c # cs = pre @ substr @ post" by blast
    show ?r
    proof (cases pre)
      case Nil
      with e show ?thesis by auto
    next
      case (Cons a pre')
      with e show ?thesis by auto
    qed
  next
    assume ?r
    then show ?l
    proof
      assume "\<exists>post. c # cs = substr @ post"
      then obtain post where "c # cs = [] @ substr @ post" by auto
      then show ?l by blast
    next
      assume "\<exists>pre post. cs = pre @ substr @ post"
      then obtain pre post where "c # cs = (c # pre) @ substr @ post" by auto
      then show ?l by blast
    qed
  qed
  with Cons show ?case
    by (simp add: HasPrefix_iff)
qed

lemma Contains_append: "Contains (pre @ s) s"
  unfolding Contains_iff by (metis append_Nil2)

lemma Contains_appendI:
  "Contains a x \<Longrightarrow> Contains (pre @ a @ post) x"
  unfolding Contains_iff by (metis append.assoc)

section \<open>The parts of a run\<close>

lemma Fprint_frame:
  "trace (snd (Fprint ch i name data s)) = trace s"
  "tunnel (snd (Fprint ch i name data s)) = tunnel s"
  "proc (snd (Fprint ch i name data s)) = proc s"
  "printed (snd (Fprint ch i name data s)) = printed s"
  by (simp_all add: Fprint_def split: option.splits)

lemma createLoginFile_frame:
  "trace (snd (createLoginFile ch u p s)) = trace s"
  "tunnel (snd (createLoginFile ch u p s)) = tunnel s"
  "proc (snd (createLoginFile ch u p s)) = proc s"
  by (simp_all add: createLoginFile_def Fprint_frame split: sum.splits)

lemma createLoginFile_fst:
  "fst (createLoginFile ch u p s) =
     (case TempFile ch of Inl err \<Rightarrow> ([], Some err) | Inr tmpFile \<Rightarrow> (tmpFile, None))"
  by (simp add: createLoginFile_def split: sum.splits)

lemma mysql_Run_fst:
  "fst (mysql_Run ch m args s) =
     (case Start ch of Some err \<Rightarrow> Fatal err | None \<Rightarrow> Return (Wait ch))"
  by (simp add: mysql_Run_def Let_def case_prod_beta split: option.splits)

lemma mysql_Run_trace:
  "trace (snd (mysql_Run ch m args s)) = trace s @ [CapabilityDetector, Launcher]"
  by (simp add: mysql_Run_def Let_def case_prod_beta split: option.splits)

lemma mysql_Run_files:
  "files (snd (mysql_Run ch m args s)) = files s"
  "tunnel (snd (mysql_Run ch m args s)) = tunnel s"
  by (simp_all add: mysql_Run_def Let_def case_prod_beta split: option.splits)

lemma mysql_Run_proc:
  "proc (snd (mysql_Run ch m args s)) =
     (case Start ch of
        Some err \<Rightarrow> proc s
      | None \<Rightarrow>
          Some \<lparr>Path = m_mysqlPath m, Args = m_mysqlPath m # args,
                Env = Environ ch @ [''MYSQL_HISTFILE='' @ m_historyFile m]
                      @ (if fst (checkLibs ch (m_mysqlPath m))
                         then [''MYSQL_PS1='' @ m_styledBranch m] else []),
                Dir = m_dir m\<rparr>)"
  by (simp add: mysql_Run_def Let_def case_prod_beta split: option.splits)

lemma mysql_Run_printed:
  "printed (snd (mysql_Run ch m args s)) =
     printed s @
     (if m_debug m then
        (case snd (checkLibs ch (m_mysqlPath m)) of
           Some e \<Rightarrow> [''failed to check linking: '' @ Error e]
         | None \<Rightarrow>
             if fst (checkLibs ch (m_mysqlPath m))
             then [''mysql is linked against readline/editline'']
             else [''mysql is not linked against readline/editline''])
      else [])"
  by (simp add: mysql_Run_def Let_def case_prod_beta split: option.splits)

lemma deferred_Remove_fst: "fst (deferred_Remove ch name r) = fst r"
  by (simp add: deferred_Remove_def split: outcome.splits)

lemma deferred_Remove_trace:
  "trace (snd (deferred_Remove ch name r)) =
     trace (snd r) @ (case fst r of Fatal e \<Rightarrow> [] | _ \<Rightarrow> [CredentialFileRemoval])"
  by (simp add: deferred_Remove_def os_Remove_def Let_def split: outcome.splits option.splits)

lemma deferred_Remove_proc:
  "proc (snd (deferred_Remove ch name r)) = proc (snd r)"
  "tunnel (snd (deferred_Remove ch name r)) = tunnel (snd r)"
  "printed (snd (deferred_Remove ch name r)) = printed (snd r)"
  by (simp_all add: deferred_Remove_def os_Remove_def Let_def split: outcome.splits option.splits)

lemma deferred_Remove_files:
  "files (snd (deferred_Remove ch name r)) =
     (case fst r of
        Fatal e \<Rightarrow> files (snd r)
      | _ \<Rightarrow> (case Remove ch of None \<Rightarrow> (files (snd r))(name := None) | Some e \<Rightarrow> files (snd r)))"
  by (simp add: deferred_Remove_def os_Remove_def Let_def split: outcome.splits option.splits)

lemma RunE_session_launch:
  assumes "Launcher \<notin> set (trace s)"
    and "Launcher \<in> set (trace (snd (RunE_session ch mysqlPath database branch tmpFile s)))"
  shows "\<exists>addr host port hist.
           proxy_LocalAddr ch = Inr addr \<and> SplitHostPort ch addr = Inr (host, port)
         \<and> historyFilePath ch (Organization ch) database branch = Inr hist
         \<and> RunE_session ch mysqlPath database branch tmpFile s =
             mysql_Run ch
               \<lparr>m_mysqlPath = mysqlPath, m_dir = [],
                m_styledBranch = formatMySQLBranch ch database branch,
                m_historyFile = hist, m_debug = Debug ch\<rparr>
               [''--defaults-extra-file='' @ tmpFile, ''-s'', ''-t'', ''-h'', host, ''-P'', port] s"
  using assms by (auto simp: RunE_session_def split: sum.splits prod.splits)

lemma RunE_login_launch:
  assumes "Launcher \<notin> set (trace s)"
    and "Launcher \<in> set (trace (snd (RunE_login ch mysqlPath database branch status s)))"
  shows "\<exists>tmpFile addr host port hist.
           TempFile ch = Inr tmpFile
         \<and> proxy_LocalAddr ch = Inr addr \<and> SplitHostPort ch addr = Inr (host, port)
         \<and> historyFilePath ch (Organization ch) database branch = Inr hist
         \<and> RunE_login ch mysqlPath database branch status s =
             (let r = mysql_Run ch
                        \<lparr>m_mysqlPath = mysqlPath, m_dir = [],
                         m_styledBranch = formatMySQLBranch ch database branch,
                         m_historyFile = hist, m_debug = Debug ch\<rparr>
                        [''--defaults-extra-file='' @ tmpFile, ''-s'', ''-t'',
                         ''-h'', host, ''-P'', port]
                        (snd (createLoginFile ch (User status) (Password status)
                                (s\<lparr>trace := trace s @ [CredentialFile]\<rparr>)))
              in if tmpFile \<noteq> [] then deferred_Remove ch tmpFile r else r)"
proof (cases "TempFile ch")
  case (Inl err)
  with assms show ?thesis
    by (simp add: RunE_login_def case_prod_beta createLoginFile_fst createLoginFile_frame)
next
  case (Inr tmpFile)
  let ?s1 = "snd (createLoginFile ch (User status) (Password status)
                    (s\<lparr>trace := trace s @ [CredentialFile]\<rparr>))"
  have login: "RunE_login ch mysqlPath database branch status s =
      (let r = RunE_session ch mysqlPath database branch tmpFile ?s1
       in if tmpFile \<noteq> [] then deferred_Remove ch tmpFile r else r)"
    using Inr by (simp add: RunE_login_def case_prod_beta createLoginFile_fst Let_def)
  have a: "Launcher \<notin> set (trace ?s1)"
    using assms(1) by (simp add: createLoginFile_frame)
  have b: "Launcher \<in> set (trace (snd (RunE_session ch mysqlPath database branch tmpFile ?s1)))"
    using assms(2) unfolding login
    by (simp add: Let_def deferred_Remove_trace split: if_splits outcome.splits)
  from RunE_session_launch [OF a b] Inr login show ?thesis
    by (auto simp: Let_def)
qed


lemma RunE_proxy_launch:
  assumes "Launcher \<notin> set (trace s)"
    and "Launcher \<in> set (trace (snd (RunE_proxy ch mysqlPath database branch s)))"
  shows "\<exists>status.
           proxy_NewClient ch = None \<and> DatabaseBranches_GetStatus ch = Inr status
         \<and> User status \<noteq> []
         \<and> RunE_proxy ch mysqlPath database branch s =
             RunE_login ch mysqlPath database branch status
               (s\<lparr>tunnel := Some \<lparr>LocalAddr = (if flag_localAddr ch \<noteq> [] then flag_localAddr ch
                                                 else ''127.0.0.1:0''),
                                   RemoteAddr = flag_remoteAddr ch,
                                   Instance = Organization ch @ ''/'' @ database @ ''/'' @ branch\<rparr>,
                  trace := trace s @ [TunnelStart, CredentialBroker]\<rparr>)"
  using assms
  by (auto simp: RunE_proxy_def Let_def split: option.splits sum.splits if_splits)

lemma RunE_launch_proxy:
  assumes "Launcher \<notin> set (trace s)"
    and "Launcher \<in> set (trace (snd (RunE ch args s)))"
  shows "\<exists>database rest mysqlPath branch.
           args = database # rest \<and> IsTTY ch \<and> Format ch = Human
         \<and> MySQLClientPath ch = Inr mysqlPath \<and> NewClientFromConfig ch = None
         \<and> (if length args = 2 \<and> args ! 1 \<noteq> [] then branch = args ! 1
             else GetBranch ch = Inr branch)
         \<and> DatabaseBranches_Get ch = None
         \<and> RunE ch args s =
             RunE_proxy ch mysqlPath database branch
               (s\<lparr>trace := trace s @ (if length args = 2 \<and> args ! 1 \<noteq> [] then []
                                       else [Resolver]) @ [Validator]\<rparr>)"
  using assms
  by (auto simp: RunE_def Let_def split: list.splits option.splits sum.splits if_splits)


lemma RunE_launch:
  assumes "Launcher \<notin> set (trace s)"
    and "Launcher \<in> set (trace (snd (RunE ch args s)))"
  shows "\<exists>database rest mysqlPath branch status tmpFile addr host port hist.
           args = database # rest \<and> IsTTY ch \<and> Format ch = Human
         \<and> MySQLClientPath ch = Inr mysqlPath \<and> NewClientFromConfig ch = None
         \<and> (if length args = 2 \<and> args ! 1 \<noteq> [] then branch = args ! 1
             else GetBranch ch = Inr branch)
         \<and> DatabaseBranches_Get ch = None
         \<and> proxy_NewClient ch = None \<and> DatabaseBranches_GetStatus ch = Inr status
         \<and> User status \<noteq> []
         \<and> TempFile ch = Inr tmpFile
         \<and> proxy_LocalAddr ch = Inr addr \<and> SplitHostPort ch addr = Inr (host, port)
         \<and> historyFilePath ch (Organization ch) database branch = Inr hist
         \<and> RunE ch args s =
             (let r = mysql_Run ch
                        \<lparr>m_mysqlPath = mysqlPath, m_dir = [],
                         m_styledBranch = formatMySQLBranch ch database branch,
                         m_historyFile = hist, m_debug = Debug ch\<rparr>
                        [''--defaults-extra-file='' @ tmpFile, ''-s'', ''-t'',
                         ''-h'', host, ''-P'', port]
                        (snd (createLoginFile ch (User status) (Password status)
                           (s\<lparr>tunnel := Some \<lparr>LocalAddr = (if flag_localAddr ch \<noteq> []
                                                            then flag_localAddr ch
                                                            else ''127.0.0.1:0''),
                                              RemoteAddr = flag_remoteAddr ch,
                                              Instance = Organization ch @ ''/'' @ database
                                                         @ ''/'' @ branch\<rparr>,
                              trace := trace s
                                  @ (if length args = 2 \<and> args ! 1 \<noteq> [] then [] else [Resolver])
                                  @ [Validator, TunnelStart, CredentialBroker, CredentialFile]\<rparr>)))
              in if tmpFile \<noteq> [] then deferred_Remove ch tmpFile r else r)"
proof -
  from RunE_launch_proxy [OF assms] obtain database rest mysqlPath branch where
    1: "args = database # rest" "IsTTY ch" "Format ch = Human"
       "MySQLClientPath ch = Inr mysqlPath" "NewClientFromConfig ch = None"
       "if length args = 2 \<and> args ! 1 \<noteq> [] then branch = args ! 1 else GetBranch ch = Inr branch"
       "DatabaseBranches_Get ch = None"
    and r1: "RunE ch args s =
             RunE_proxy ch mysqlPath database branch
               (s\<lparr>trace := trace s @ (if length args = 2 \<and> args ! 1 \<noteq> [] then []
                                       else [Resolver]) @ [Validator]\<rparr>)"
      (is "_ = RunE_proxy _ _ _ _ ?s1")
    by blast
  have n1: "Launcher \<notin> set (trace ?s1)"
    using assms(1) by simp
  from RunE_proxy_launch [OF n1] assms(2) r1 obtain status where
    2: "proxy_NewClient ch = None" "DatabaseBranches_GetStatus ch = Inr status" "User status \<noteq> []"
    and r2: "RunE_proxy ch mysqlPath database branch ?s1 =
             RunE_login ch mysqlPath database branch status
               (?s1\<lparr>tunnel := Some \<lparr>LocalAddr = (if flag_localAddr ch \<noteq> [] then flag_localAddr ch
                                                 else ''127.0.0.1:0''),
                                   RemoteAddr = flag_remoteAddr ch,
                                   Instance = Organization ch @ ''/'' @ database @ ''/'' @ branch\<rparr>,
                  trace := trace ?s1 @ [TunnelStart, CredentialBroker]\<rparr>)"
      (is "_ = RunE_login _ _ _ _ _ ?s2")
    by metis
  have n2: "Launcher \<notin> set (trace ?s2)"
    using assms(1) by simp
  from RunE_login_launch [OF n2] assms(2) r1 r2 obtain tmpFile addr host port hist where
    3: "TempFile ch = Inr tmpFile" "proxy_LocalAddr ch = Inr addr"
       "SplitHostPort ch addr = Inr (host, port)"
       "historyFilePath ch (Organization ch) database branch = Inr hist"
    and r3: "RunE_login ch mysqlPath database branch status ?s2 =
             (let r = mysql_Run ch
                        \<lparr>m_mysqlPath = mysqlPath, m_dir = [],
                         m_styledBranch = formatMySQLBranch ch database branch,
                         m_historyFile = hist, m_debug = Debug ch\<rparr>
                        [''--defaults-extra-file='' @ tmpFile, ''-s'', ''-t'',
                         ''-h'', host, ''-P'', port]
                        (snd (createLoginFile ch (User status) (Password status)
                                (?s2\<lparr>trace := trace ?s2 @ [CredentialFile]\<rparr>)))
              in if tmpFile \<noteq> [] then deferred_Remove ch tmpFile r else r)"
    by metis
  have "RunE ch args s =
             (let r = mysql_Run ch
                        \<lparr>m_mysqlPath = mysqlPath, m_dir = [],
                         m_styledBranch = formatMySQLBranch ch database branch,
                         m_historyFile = hist, m_debug = Debug ch\<rparr>
                        [''--defaults-extra-file='' @ tmpFile, ''-s'', ''-t'',
                         ''-h'', host, ''-P'', port]
                        (snd (createLoginFile ch (User status) (Password status)
                           (s\<lparr>tunnel := Some \<lparr>LocalAddr = (if flag_localAddr ch \<noteq> []
                                                            then flag_localAddr ch
                                                            else ''127.0.0.1:0''),
                                              RemoteAddr = flag_remoteAddr ch,
                                              Instance = Organization ch @ ''/'' @ database
                                                         @ ''/'' @ branch\<rparr>,
                              trace := trace s
                                  @ (if length args = 2 \<and> args ! 1 \<noteq> [] then [] else [Resolver])
                                  @ [Validator, TunnelStart, CredentialBroker, CredentialFile]\<rparr>)))
              in if tmpFile \<noteq> [] then deferred_Remove ch tmpFile r else r)"
    unfolding r1 r2 r3 by simp
  with 1 2 3 show ?thesis
    by blast
qed

lemma RunE_launch_state:
  assumes "Launcher \<notin> set (trace s)"
    and "Launcher \<in> set (trace (snd (RunE ch args s)))"
  shows "\<exists>database rest mysqlPath branch status tmpFile addr host port hist s0.
           args = database # rest \<and> IsTTY ch \<and> Format ch = Human
         \<and> MySQLClientPath ch = Inr mysqlPath \<and> NewClientFromConfig ch = None
         \<and> (if length args = 2 \<and> args ! 1 \<noteq> [] then branch = args ! 1
             else GetBranch ch = Inr branch)
         \<and> DatabaseBranches_Get ch = None
         \<and> proxy_NewClient ch = None \<and> DatabaseBranches_GetStatus ch = Inr status
         \<and> User status \<noteq> []
         \<and> TempFile ch = Inr tmpFile
         \<and> proxy_LocalAddr ch = Inr addr \<and> SplitHostPort ch addr = Inr (host, port)
         \<and> historyFilePath ch (Organization ch) database branch = Inr hist
         \<and> trace s0 = trace s
                @ (if length args = 2 \<and> args ! 1 \<noteq> [] then [] else [Resolver])
                @ [Validator, TunnelStart, CredentialBroker, CredentialFile]
         \<and> files s0 = files s \<and> printed s0 = printed s \<and> proc s0 = proc s
         \<and> RunE ch args s =
             (let r = mysql_Run ch
                        \<lparr>m_mysqlPath = mysqlPath, m_dir = [],
                         m_styledBranch = formatMySQLBranch ch database branch,
                         m_historyFile = hist, m_debug = Debug ch\<rparr>
                        [''--defaults-extra-file='' @ tmpFile, ''-s'', ''-t'',
                         ''-h'', host, ''-P'', port]
                        (snd (createLoginFile ch (User status) (Password status) s0))
              in if tmpFile \<noteq> [] then deferred_Remove ch tmpFile r else r)"
proof -
  from RunE_launch [OF assms]
  obtain database rest mysqlPath branch status tmpFile addr host port hist where
    c: "args = database # rest" "IsTTY ch" "Format ch = Human"
       "MySQLClientPath ch = Inr mysqlPath" "NewClientFromConfig ch = None"
       "if length args = 2 \<and> args ! 1 \<noteq> [] then branch = args ! 1 else GetBranch ch = Inr branch"
       "DatabaseBranches_Get ch = None"
       "proxy_NewClient ch = None" "DatabaseBranches_GetStatus ch = Inr status"
       "User status \<noteq> []" "TempFile ch = Inr tmpFile"
       "proxy_LocalAddr ch = Inr addr" "SplitHostPort ch addr = Inr (host, port)"
       "historyFilePath ch (Organization ch) database branch = Inr hist"
    and r: "RunE ch args s =
             (let r = mysql_Run ch
                        \<lparr>m_mysqlPath = mysqlPath, m_dir = [],
                         m_styledBranch = formatMySQLBranch ch database branch,
                         m_historyFile = hist, m_debug = Debug ch\<rparr>
                        [''--defaults-extra-file='' @ tmpFile, ''-s'', ''-t'',
                         ''-h'', host, ''-P'', port]
                        (snd (createLoginFile ch (User status) (Password status)
                           (s\<lparr>tunnel := Some \<lparr>LocalAddr = (if flag_localAddr ch \<noteq> []
                                                            then flag_localAddr ch
                                                            else ''127.0.0.1:0''),
                                              RemoteAddr = flag_remoteAddr ch,
                                              Instance = Organization ch @ ''/'' @ database
                                                         @ ''/'' @ branch\<rparr>,
                              trace := trace s
                                  @ (if length args = 2 \<and> args ! 1 \<noteq> [] then [] else [Resolver])
                                  @ [Validator, TunnelStart, CredentialBroker, CredentialFile]\<rparr>)))
              in if tmpFile \<noteq> [] then deferred_Remove ch tmpFile r else r)"
      (is "_ = (let r = mysql_Run _ _ _ (snd (createLoginFile _ _ _ ?s0)) in _)")
    by blast
  define s0 where "s0 = ?s0"
  have s0: "trace s0 = trace s
                @ (if length args = 2 \<and> args ! 1 \<noteq> [] then [] else [Resolver])
                @ [Validator, TunnelStart, CredentialBroker, CredentialFile]"
    "files s0 = files s" "printed s0 = printed s" "proc s0 = proc s"
    by (simp_all add: s0_def)
  note r' = r [folded s0_def]
  from c s0 r' show ?thesis
    by blast
qed

section \<open>Evaluating a concrete run\<close>

lemmas run_defs =
  RunE_def RunE_proxy_def RunE_login_def RunE_session_def mysql_Run_def createLoginFile_def
  Fprint_def deferred_Remove_def os_Remove_def checkLibs_def isLinked_def
  formatMySQLBranch_def historyFilePath_def filepath_Join_def Clean_def Clean_elem_def
  newline_def esc_def ErrNotFound_def Let_def

lemmas scenario_defs =
  acme_run_def fresh_def spawn_fails_def client_exits_1_def branch_missing_def on_linux_def
  otool_fails_def disk_full_def acme_cmd_def

lemma acme_run_proc:
  "proc (snd (RunE acme_run [''shop'', ''main''] fresh)) = Some acme_cmd"
  by (simp add: run_defs scenario_defs)

lemma acme_run_chosen_branch_trace:
  "trace (snd (RunE acme_run [''shop''] fresh)) =
     [Resolver, Validator, TunnelStart, CredentialBroker, CredentialFile, CapabilityDetector,
      Launcher, CredentialFileRemoval]"
  by (simp add: run_defs scenario_defs)

section \<open>How a session ends\<close>

text \<open>
  C7 does not hold for a client that cannot be started. What the code does: a mysql
  client that \<open>cmdutil.MySQLClientPath\<close> does not find is an error that \<open>RunE\<close> returns
  before anything is set up, and in every session that gets to \<open>c.Start()\<close> and whose
  start succeeds \<open>RunE\<close> returns what \<open>c.Wait()\<close> returned, so the error of a client that
  exited with a non-zero status is the error of the session, as C7 says. But when
  \<open>c.Start()\<close> fails, the error is not returned to the caller, as C7 says it is and as
  every other failing call in \<open>RunE\<close> and \<open>Run\<close> is: the process ends in \<open>log.Fatal\<close>.
\<close>

theorem RunE_start_failure_is_fatal:
  "(\<forall>database rest err.
      args = database # rest \<and> IsTTY ch \<and> Format ch = Human \<and> MySQLClientPath ch = Inl err
      \<longrightarrow> RunE ch args s = (Return (Some err), s))
   \<and> (Launcher \<notin> set (trace s) \<and> Launcher \<in> set (trace (snd (RunE ch args s)))
      \<longrightarrow> fst (RunE ch args s) =
            (case Start ch of Some err \<Rightarrow> Fatal err | None \<Rightarrow> Return (Wait ch)))"
proof (intro conjI allI impI)
  fix database rest err
  assume "args = database # rest \<and> IsTTY ch \<and> Format ch = Human
          \<and> MySQLClientPath ch = Inl err"
  then show "RunE ch args s = (Return (Some err), s)"
    by (simp add: RunE_def)
next
  assume "Launcher \<notin> set (trace s) \<and> Launcher \<in> set (trace (snd (RunE ch args s)))"
  then have "Launcher \<notin> set (trace s)" "Launcher \<in> set (trace (snd (RunE ch args s)))"
    by simp_all
  from RunE_launch [OF this]
  show "fst (RunE ch args s) =
          (case Start ch of Some err \<Rightarrow> Fatal err | None \<Rightarrow> Return (Wait ch))"
    by (auto simp: Let_def mysql_Run_fst deferred_Remove_fst)
qed

theorem RunE_start_failure_is_fatal_witness:
  "Launcher \<notin> set (trace fresh)
   \<and> Launcher \<in> set (trace (snd (RunE client_exits_1 [''shop'', ''main''] fresh)))
   \<and> Start client_exits_1 = None \<and> Wait client_exits_1 = Some (ExitError 1)
   \<and> fst (RunE client_exits_1 [''shop'', ''main''] fresh) = Return (Some (ExitError 1))
   \<and> MySQLClientPath no_client = Inl (ErrorString ''couldn't find the mysql command-line tool'')
   \<and> RunE no_client [''shop'', ''main''] fresh
       = (Return (Some (ErrorString ''couldn't find the mysql command-line tool'')), fresh)
   \<and> Launcher \<in> set (trace (snd (RunE spawn_fails [''shop'', ''main''] fresh)))
   \<and> Start spawn_fails
       = Some (ErrorString ''fork/exec /usr/local/bin/mysql: permission denied'')
   \<and> fst (RunE spawn_fails [''shop'', ''main''] fresh)
       = Fatal (ErrorString ''fork/exec /usr/local/bin/mysql: permission denied'')"
proof -
  have a: "Launcher \<notin> set (trace fresh)"
    by (simp add: fresh_def)
  have b: "Launcher \<in> set (trace (snd (RunE client_exits_1 [''shop'', ''main''] fresh)))"
    by (simp add: run_defs scenario_defs)
  have b': "Launcher \<in> set (trace (snd (RunE spawn_fails [''shop'', ''main''] fresh)))"
    by (simp add: run_defs scenario_defs)
  have c': "Start spawn_fails
              = Some (ErrorString ''fork/exec /usr/local/bin/mysql: permission denied'')"
    by (simp add: scenario_defs)
  from RunE_start_failure_is_fatal [of "[''shop'', ''main'']" spawn_fails fresh] a b' c'
  have 3: "fst (RunE spawn_fails [''shop'', ''main''] fresh)
             = Fatal (ErrorString ''fork/exec /usr/local/bin/mysql: permission denied'')"
    by simp
  have c: "Start client_exits_1 = None" "Wait client_exits_1 = Some (ExitError 1)"
    by (simp_all add: scenario_defs)
  have d: "IsTTY no_client" "Format no_client = Human"
    "MySQLClientPath no_client = Inl (ErrorString ''couldn't find the mysql command-line tool'')"
    by (simp_all add: no_client_def acme_run_def)
  from RunE_start_failure_is_fatal [of "[''shop'', ''main'']" client_exits_1 fresh] a b c
  have 1: "fst (RunE client_exits_1 [''shop'', ''main''] fresh) = Return (Some (ExitError 1))"
    by simp
  from RunE_start_failure_is_fatal [of "[''shop'', ''main'']" no_client fresh] d
  have 2: "RunE no_client [''shop'', ''main''] fresh
       = (Return (Some (ErrorString ''couldn't find the mysql command-line tool'')), fresh)"
    by simp
  from a b c d(3) 1 2 b' c' 3 show ?thesis
    by simp
qed

text \<open>
  The failing input of C7: in the scenario, with a mysql client that cannot be started,
  no launch error is returned to the caller; the call of \<open>RunE\<close> does not return.
\<close>

theorem spawn_failure_not_returned:
  "Start spawn_fails = Some (ErrorString ''fork/exec /usr/local/bin/mysql: permission denied'')
   \<and> fst (RunE spawn_fails [''shop'', ''main''] fresh)
       = Fatal (ErrorString ''fork/exec /usr/local/bin/mysql: permission denied'')
   \<and> \<not> returned (fst (RunE spawn_fails [''shop'', ''main''] fresh))"
  by (simp add: run_defs scenario_defs)

lemma RunE_login_return_removes_file:
  assumes "TempFile ch = Inr tmpFile" and "tmpFile \<noteq> []" and "Remove ch = None"
    and "returned (fst (RunE_login ch mysqlPath database branch status s))"
  shows "files (snd (RunE_login ch mysqlPath database branch status s)) tmpFile = None"
proof -
  let ?r = "RunE_session ch mysqlPath database branch tmpFile
              (snd (createLoginFile ch (User status) (Password status)
                      (s\<lparr>trace := trace s @ [CredentialFile]\<rparr>)))"
  have login: "RunE_login ch mysqlPath database branch status s = deferred_Remove ch tmpFile ?r"
    using assms(1,2) by (simp add: RunE_login_def case_prod_beta createLoginFile_fst Let_def)
  from assms(4) have "returned (fst ?r)"
    by (simp add: login deferred_Remove_fst)
  then show ?thesis
    using assms(3) by (cases "fst ?r") (simp_all add: login deferred_Remove_files)
qed

text \<open>
  C1 does not hold on the exit through \<open>log.Fatal\<close>. In every session that gets to
  \<open>c.Start()\<close> and whose start fails, the credential file has been created, the process
  ends in \<open>log.Fatal\<close>, the deferred \<open>os.Remove\<close> is never called and the file is still
  there, with what was written of the user name and the password.
\<close>

theorem RunE_fatal_keeps_credential_file:
  assumes "Launcher \<notin> set (trace s)" and "CredentialFileRemoval \<notin> set (trace s)"
    and "Launcher \<in> set (trace (snd (RunE ch args s)))"
    and "Start ch = Some err"
  shows "\<exists>tmpFile status.
           TempFile ch = Inr tmpFile \<and> DatabaseBranches_GetStatus ch = Inr status
         \<and> fst (RunE ch args s) = Fatal err
         \<and> files (snd (RunE ch args s)) tmpFile =
             Some \<lparr>contents = written ch 0 (''[client]'' @ newline)
                                @ written ch 1 (''user='' @ User status @ newline)
                                @ written ch 2 (''password='' @ Password status @ newline),
                   perm = 0x180\<rparr>
         \<and> CredentialFileRemoval \<notin> set (trace (snd (RunE ch args s)))"
proof -
  from RunE_launch_state [OF assms(1,3)]
  obtain database mysqlPath branch status tmpFile host port hist s0
    where t: "TempFile ch = Inr tmpFile" and g: "DatabaseBranches_GetStatus ch = Inr status"
      and s0: "trace s0 = trace s
                @ (if length args = 2 \<and> args ! 1 \<noteq> [] then [] else [Resolver])
                @ [Validator, TunnelStart, CredentialBroker, CredentialFile]"
      and r: "RunE ch args s =
             (let r = mysql_Run ch
                        \<lparr>m_mysqlPath = mysqlPath, m_dir = [],
                         m_styledBranch = formatMySQLBranch ch database branch,
                         m_historyFile = hist, m_debug = Debug ch\<rparr>
                        [''--defaults-extra-file='' @ tmpFile, ''-s'', ''-t'',
                         ''-h'', host, ''-P'', port]
                        (snd (createLoginFile ch (User status) (Password status) s0))
              in if tmpFile \<noteq> [] then deferred_Remove ch tmpFile r else r)"
    by blast
  have "fst (RunE ch args s) = Fatal err"
    using assms(4) by (simp add: r Let_def deferred_Remove_fst mysql_Run_fst)
  moreover have "files (snd (RunE ch args s)) tmpFile =
             Some \<lparr>contents = written ch 0 (''[client]'' @ newline)
                                @ written ch 1 (''user='' @ User status @ newline)
                                @ written ch 2 (''password='' @ Password status @ newline),
                   perm = 0x180\<rparr>"
    using assms(4) createLoginFile_file(2) [OF t, of "User status" "Password status" s0]
    by (auto simp: r Let_def deferred_Remove_files mysql_Run_fst mysql_Run_files)
  moreover have "CredentialFileRemoval \<notin> set (trace (snd (RunE ch args s)))"
    using assms(2,4) s0
    by (simp add: r Let_def deferred_Remove_trace mysql_Run_fst mysql_Run_trace
        createLoginFile_frame)
  ultimately show ?thesis
    using t g by blast
qed

theorem RunE_fatal_keeps_credential_file_witness:
  "Launcher \<notin> set (trace fresh) \<and> CredentialFileRemoval \<notin> set (trace fresh)
   \<and> Launcher \<in> set (trace (snd (RunE spawn_fails [''shop'', ''main''] fresh)))
   \<and> Start spawn_fails
       = Some (ErrorString ''fork/exec /usr/local/bin/mysql: permission denied'')
   \<and> fst (RunE spawn_fails [''shop'', ''main''] fresh)
       = Fatal (ErrorString ''fork/exec /usr/local/bin/mysql: permission denied'')
   \<and> files (snd (RunE spawn_fails [''shop'', ''main''] fresh)) ''/tmp/pscale-123456789''
       = Some \<lparr>contents = ''[client]'' @ newline @ ''user=shop_ro'' @ newline
                            @ ''password=secret'' @ newline,
               perm = 0x180\<rparr>
   \<and> CredentialFileRemoval \<notin> set (trace (snd (RunE spawn_fails [''shop'', ''main''] fresh)))"
proof -
  have a: "Launcher \<notin> set (trace fresh)" "CredentialFileRemoval \<notin> set (trace fresh)"
    by (simp_all add: fresh_def)
  have b: "Launcher \<in> set (trace (snd (RunE spawn_fails [''shop'', ''main''] fresh)))"
    by (simp add: run_defs scenario_defs)
  have c: "Start spawn_fails
             = Some (ErrorString ''fork/exec /usr/local/bin/mysql: permission denied'')"
    by (simp add: scenario_defs)
  have d: "TempFile spawn_fails = Inr ''/tmp/pscale-123456789''"
    "DatabaseBranches_GetStatus spawn_fails = Inr \<lparr>User = ''shop_ro'', Password = ''secret''\<rparr>"
    "written spawn_fails i data = data" for i data
    by (simp_all add: scenario_defs written_def)
  from RunE_fatal_keeps_credential_file [OF a b c] a b c d show ?thesis
    by auto
qed


section \<open>What the client is started with\<close>

text \<open>
  C2 as stated fails: in the scenario the path of the credential file is part of the
  second command-line argument of the client, and no entry of the client's environment
  holds it.
\<close>

theorem credential_file_on_command_line:
  "proc (snd (RunE acme_run [''shop'', ''main''] fresh)) = Some acme_cmd
   \<and> TempFile acme_run = Inr ''/tmp/pscale-123456789''
   \<and> in_arguments acme_cmd ''/tmp/pscale-123456789''
   \<and> \<not> in_environment acme_cmd ''/tmp/pscale-123456789''"
  by (simp add: acme_run_proc in_arguments_def in_environment_def)
     (simp add: scenario_defs esc_def)

text \<open>
  C2, as the code has it. In every session that starts the client, the client is
  pointed at the credential file by its first command-line argument,
  \<open>--defaults-extra-file=\<close> followed by the file's path; the arguments are that one,
  \<open>-s\<close>, \<open>-t\<close>, \<open>-h\<close> with the host and \<open>-P\<close> with the port of the tunnel. The
  environment is the one of the parent with \<open>MYSQL_HISTFILE\<close> added, and \<open>MYSQL_PS1\<close>
  after it or not: no variable is added for the credential file.
\<close>

theorem RunE_credential_file_is_an_argument:
  assumes "Launcher \<notin> set (trace s)"
    and "Launcher \<in> set (trace (snd (RunE ch args s)))"
    and "Start ch = None"
  shows "\<exists>mysqlPath tmpFile addr host port hist prompt c.
           MySQLClientPath ch = Inr mysqlPath \<and> TempFile ch = Inr tmpFile
         \<and> proxy_LocalAddr ch = Inr addr \<and> SplitHostPort ch addr = Inr (host, port)
         \<and> proc (snd (RunE ch args s)) = Some c
         \<and> Args c = [mysqlPath, ''--defaults-extra-file='' @ tmpFile, ''-s'', ''-t'',
                      ''-h'', host, ''-P'', port]
         \<and> in_arguments c tmpFile
         \<and> (Env c = Environ ch @ [''MYSQL_HISTFILE='' @ hist]
              \<or> Env c = Environ ch @ [''MYSQL_HISTFILE='' @ hist, ''MYSQL_PS1='' @ prompt])"
proof -
  from RunE_launch_state [OF assms(1,2)]
  obtain database mysqlPath branch status tmpFile addr host port hist s0
    where c: "MySQLClientPath ch = Inr mysqlPath" "TempFile ch = Inr tmpFile"
        "proxy_LocalAddr ch = Inr addr" "SplitHostPort ch addr = Inr (host, port)"
      and g: "DatabaseBranches_GetStatus ch = Inr status"
      and r: "RunE ch args s =
             (let r = mysql_Run ch
                        \<lparr>m_mysqlPath = mysqlPath, m_dir = [],
                         m_styledBranch = formatMySQLBranch ch database branch,
                         m_historyFile = hist, m_debug = Debug ch\<rparr>
                        [''--defaults-extra-file='' @ tmpFile, ''-s'', ''-t'',
                         ''-h'', host, ''-P'', port]
                        (snd (createLoginFile ch (User status) (Password status) s0))
              in if tmpFile \<noteq> [] then deferred_Remove ch tmpFile r else r)"
    by blast
  define c where "c = \<lparr>Path = mysqlPath,
      Args = [mysqlPath, ''--defaults-extra-file='' @ tmpFile, ''-s'', ''-t'', ''-h'', host,
              ''-P'', port],
      Env = Environ ch @ [''MYSQL_HISTFILE='' @ hist]
            @ (if fst (checkLibs ch mysqlPath)
               then [''MYSQL_PS1='' @ formatMySQLBranch ch database branch] else []),
      Dir = []\<rparr>"
  have p: "proc (snd (RunE ch args s)) = Some c"
    using assms(3) by (simp add: r Let_def deferred_Remove_proc mysql_Run_proc c_def)
  have a: "Args c = [mysqlPath, ''--defaults-extra-file='' @ tmpFile, ''-s'', ''-t'',
                      ''-h'', host, ''-P'', port]"
    by (simp add: c_def)
  have "Contains (''--defaults-extra-file='' @ tmpFile) tmpFile"
    by (rule Contains_append)
  then have i: "in_arguments c tmpFile"
    by (simp add: in_arguments_def a del: Contains.simps)
  have e: "Env c = Environ ch @ [''MYSQL_HISTFILE='' @ hist]
              \<or> Env c = Environ ch @ [''MYSQL_HISTFILE='' @ hist,
                     ''MYSQL_PS1='' @ formatMySQLBranch ch database branch]"
    by (simp add: c_def)
  from c p a i e show ?thesis
    by blast
qed

theorem RunE_credential_file_is_an_argument_witness:
  "Launcher \<notin> set (trace fresh)
   \<and> Launcher \<in> set (trace (snd (RunE acme_run [''shop'', ''main''] fresh)))
   \<and> Start acme_run = None
   \<and> (\<exists>c. proc (snd (RunE acme_run [''shop'', ''main''] fresh)) = Some c
          \<and> Args c = [''/usr/local/bin/mysql'', ''--defaults-extra-file=/tmp/pscale-123456789'',
                       ''-s'', ''-t'', ''-h'', ''127.0.0.1'', ''-P'', ''54321''])"
proof -
  have a: "Launcher \<notin> set (trace fresh)"
    by (simp add: fresh_def)
  have b: "Launcher \<in> set (trace (snd (RunE acme_run [''shop'', ''main''] fresh)))"
    by (simp add: run_defs scenario_defs)
  have c: "Start acme_run = None"
    by (simp add: scenario_defs)
  have d: "MySQLClientPath acme_run = Inr ''/usr/local/bin/mysql''"
    "TempFile acme_run = Inr ''/tmp/pscale-123456789''"
    "proxy_LocalAddr acme_run = Inr ''127.0.0.1:54321''"
    "SplitHostPort acme_run ''127.0.0.1:54321'' = Inr (''127.0.0.1'', ''54321'')"
    by (simp_all add: scenario_defs)
  from RunE_credential_file_is_an_argument [OF a b c] a b c d show ?thesis
    by auto
qed

section \<open>The prompt\<close>

lemma formatMySQLBranch_eq:
  "formatMySQLBranch ch database branch =
     Bold ch database @ ''/''
     @ (if branch = ''main'' then BoldRed ch branch else BoldBlue ch branch) @ ''> ''"
  by (simp add: formatMySQLBranch_def)

text \<open>
  C6. In every session that starts the client, for the database \<open>d\<close> and the branch
  \<open>b\<close> of the session: the environment of the client is the parent's, then
  \<open>MYSQL_HISTFILE\<close>, then, if and only if \<open>checkLibs\<close> reports that the client is linked
  against readline or editline, \<open>MYSQL_PS1\<close> with the prompt: \<open>d\<close> in bold, \<open>/\<close>, \<open>b\<close>,
  \<open>> \<close>, where \<open>b\<close> is styled with \<open>BoldRed\<close> exactly when it is \<open>main\<close> and with
  \<open>BoldBlue\<close> otherwise.
\<close>

theorem RunE_prompt_iff_linked:
  assumes "Launcher \<notin> set (trace s)"
    and "Launcher \<in> set (trace (snd (RunE ch args s)))"
    and "Start ch = None"
  shows "\<exists>database rest mysqlPath branch hist c.
           args = database # rest \<and> MySQLClientPath ch = Inr mysqlPath
         \<and> (if length args = 2 \<and> args ! 1 \<noteq> [] then branch = args ! 1
             else GetBranch ch = Inr branch)
         \<and> historyFilePath ch (Organization ch) database branch = Inr hist
         \<and> proc (snd (RunE ch args s)) = Some c
         \<and> Env c = Environ ch @ [''MYSQL_HISTFILE='' @ hist]
                   @ (if fst (checkLibs ch mysqlPath)
                      then [''MYSQL_PS1='' @ Bold ch database @ ''/''
                            @ (if branch = ''main'' then BoldRed ch branch
                               else BoldBlue ch branch) @ ''> '']
                      else [])"
proof -
  from RunE_launch_state [OF assms(1,2)]
  obtain database rest mysqlPath branch status tmpFile host port hist s0
    where c: "args = database # rest" "MySQLClientPath ch = Inr mysqlPath"
        "if length args = 2 \<and> args ! 1 \<noteq> [] then branch = args ! 1 else GetBranch ch = Inr branch"
        "historyFilePath ch (Organization ch) database branch = Inr hist"
      and g: "DatabaseBranches_GetStatus ch = Inr status"
      and r: "RunE ch args s =
             (let r = mysql_Run ch
                        \<lparr>m_mysqlPath = mysqlPath, m_dir = [],
                         m_styledBranch = formatMySQLBranch ch database branch,
                         m_historyFile = hist, m_debug = Debug ch\<rparr>
                        [''--defaults-extra-file='' @ tmpFile, ''-s'', ''-t'',
                         ''-h'', host, ''-P'', port]
                        (snd (createLoginFile ch (User status) (Password status) s0))
              in if tmpFile \<noteq> [] then deferred_Remove ch tmpFile r else r)"
    by blast
  define c where "c = \<lparr>Path = mysqlPath,
      Args = [mysqlPath, ''--defaults-extra-file='' @ tmpFile, ''-s'', ''-t'', ''-h'', host,
              ''-P'', port],
      Env = Environ ch @ [''MYSQL_HISTFILE='' @ hist]
            @ (if fst (checkLibs ch mysqlPath)
               then [''MYSQL_PS1='' @ formatMySQLBranch ch database branch] else []),
      Dir = []\<rparr>"
  have p: "proc (snd (RunE ch args s)) = Some c"
    using assms(3) by (simp add: r Let_def deferred_Remove_proc mysql_Run_proc c_def)
  have e: "Env c = Environ ch @ [''MYSQL_HISTFILE='' @ hist]
                   @ (if fst (checkLibs ch mysqlPath)
                      then [''MYSQL_PS1='' @ Bold ch database @ ''/''
                            @ (if branch = ''main'' then BoldRed ch branch
                               else BoldBlue ch branch) @ ''> '']
                      else [])"
    by (simp add: c_def formatMySQLBranch_eq)
  from c p e show ?thesis
    by blast
qed


theorem RunE_prompt_iff_linked_witness:
  "Launcher \<notin> set (trace fresh)
   \<and> Launcher \<in> set (trace (snd (RunE acme_run [''shop'', ''main''] fresh)))
   \<and> Start acme_run = None
   \<and> fst (checkLibs acme_run ''/usr/local/bin/mysql'')
   \<and> (\<exists>c. proc (snd (RunE acme_run [''shop'', ''main''] fresh)) = Some c
          \<and> Env c = [''HOME=/Users/op'',
                      ''MYSQL_HISTFILE=/Users/op/.pscale/history/acme.shop.main'',
                      ''MYSQL_PS1='' @ esc @ ''[1mshop'' @ esc @ ''[0m/'' @ esc @ ''[31;1mmain''
                        @ esc @ ''[0m> ''])"
proof -
  have a: "Launcher \<notin> set (trace fresh)"
    by (simp add: fresh_def)
  have b: "Launcher \<in> set (trace (snd (RunE acme_run [''shop'', ''main''] fresh)))"
    by (simp add: run_defs scenario_defs)
  have c: "Start acme_run = None"
    by (simp add: scenario_defs)
  have l: "fst (checkLibs acme_run ''/usr/local/bin/mysql'')"
    by (simp add: run_defs scenario_defs)
  have h: "historyFilePath acme_run (Organization acme_run) ''shop'' ''main''
             = Inr ''/Users/op/.pscale/history/acme.shop.main''"
    by (simp add: run_defs scenario_defs)
  have d: "MySQLClientPath acme_run = Inr ''/usr/local/bin/mysql''"
    "Environ acme_run = [''HOME=/Users/op'']"
    "Bold acme_run ''shop'' = esc @ ''[1mshop'' @ esc @ ''[0m''"
    "BoldRed acme_run ''main'' = esc @ ''[31;1mmain'' @ esc @ ''[0m''"
    by (simp_all add: scenario_defs)
  from RunE_prompt_iff_linked [OF a b c]
  obtain database rest mysqlPath branch hist cmd where
    e: "[''shop'', ''main''] = database # rest" "MySQLClientPath acme_run = Inr mysqlPath"
       "branch = ''main''"
       "historyFilePath acme_run (Organization acme_run) database branch = Inr hist"
       "proc (snd (RunE acme_run [''shop'', ''main''] fresh)) = Some cmd"
       "Env cmd = Environ acme_run @ [''MYSQL_HISTFILE='' @ hist]
                   @ (if fst (checkLibs acme_run mysqlPath)
                      then [''MYSQL_PS1='' @ Bold acme_run database @ ''/''
                            @ (if branch = ''main'' then BoldRed acme_run branch
                               else BoldBlue acme_run branch) @ ''> '']
                      else [])"
    by auto
  from e(1) have "database = ''shop''" by simp
  moreover from e(2) d(1) have "mysqlPath = ''/usr/local/bin/mysql''" by simp
  moreover note e(3)
  ultimately have "Env cmd = [''HOME=/Users/op'',
                      ''MYSQL_HISTFILE=/Users/op/.pscale/history/acme.shop.main'',
                      ''MYSQL_PS1='' @ esc @ ''[1mshop'' @ esc @ ''[0m/'' @ esc @ ''[31;1mmain''
                        @ esc @ ''[0m> '']"
    using e(4,6) h l d by simp
  with e(5) a b c l show ?thesis
    by blast
qed

section \<open>A branch that does not exist\<close>

text \<open>
  C4. In every run that gets to the lookup of the branch (the terminal is interactive,
  the mysql client and the API client are there, the branch is given or chosen) and in
  which \<open>DatabaseBranches.Get\<close> fails with an error whose code is \<open>ErrNotFound\<close>, the
  command returns an error whose message is made of the styled names of the database,
  the branch and the organization, so it names the three whenever the style keeps the
  text it is given; no file is created or changed, no proxy client is made, nothing is
  started: the only components that ran are the Resolver, if the branch had to be
  chosen, and the Validator.
\<close>

theorem RunE_branch_not_found:
  assumes "args = database # rest" and "IsTTY ch" and "Format ch = Human"
    and "MySQLClientPath ch = Inr mysqlPath" and "NewClientFromConfig ch = None"
    and "if length args = 2 \<and> args ! 1 \<noteq> [] then branch = args ! 1
         else GetBranch ch = Inr branch"
    and "DatabaseBranches_Get ch = Some err" and "ErrCode ch err = ErrNotFound"
  shows "fst (RunE ch args s) =
           Return (Some (ErrorString
             (''database '' @ BoldBlue ch database @ '' and branch '' @ BoldBlue ch branch
              @ '' does not exist in organization '' @ BoldBlue ch (Organization ch))))
       \<and> ((\<forall>x. Contains (BoldBlue ch x) x) \<longrightarrow>
            (\<exists>msg. fst (RunE ch args s) = Return (Some (ErrorString msg))
                 \<and> Contains msg (Organization ch) \<and> Contains msg database
                 \<and> Contains msg branch))
       \<and> files (snd (RunE ch args s)) = files s
       \<and> tunnel (snd (RunE ch args s)) = tunnel s
       \<and> proc (snd (RunE ch args s)) = proc s
       \<and> trace (snd (RunE ch args s)) =
           trace s @ (if length args = 2 \<and> args ! 1 \<noteq> [] then [] else [Resolver]) @ [Validator]"
proof -
  let ?msg = "''database '' @ BoldBlue ch database @ '' and branch '' @ BoldBlue ch branch
              @ '' does not exist in organization '' @ BoldBlue ch (Organization ch)"
  have r: "RunE ch args s =
             (Return (Some (ErrorString ?msg)),
              s\<lparr>trace := trace s @ (if length args = 2 \<and> args ! 1 \<noteq> [] then [] else [Resolver])
                            @ [Validator]\<rparr>)"
    using assms by (auto simp: RunE_def Let_def split: if_splits)
  have n: "Contains ?msg (Organization ch) \<and> Contains ?msg database \<and> Contains ?msg branch"
    if k: "\<forall>x. Contains (BoldBlue ch x) x"
  proof -
    have "Contains (''database '' @ BoldBlue ch database
                    @ ('' and branch '' @ BoldBlue ch branch
                       @ '' does not exist in organization '' @ BoldBlue ch (Organization ch)))
            database"
      using k by (intro Contains_appendI) simp
    moreover have "Contains ((''database '' @ BoldBlue ch database @ '' and branch '')
                    @ BoldBlue ch branch
                    @ ('' does not exist in organization '' @ BoldBlue ch (Organization ch)))
            branch"
      using k by (intro Contains_appendI) simp
    moreover have "Contains ((''database '' @ BoldBlue ch database @ '' and branch ''
                    @ BoldBlue ch branch @ '' does not exist in organization '')
                    @ BoldBlue ch (Organization ch) @ [])
            (Organization ch)"
      using k by (intro Contains_appendI) simp
    ultimately show ?thesis
      by simp
  qed
  show ?thesis
    using n by (simp add: r)
qed

theorem RunE_branch_not_found_witness:
  "IsTTY branch_missing \<and> Format branch_missing = Human
   \<and> MySQLClientPath branch_missing = Inr ''/usr/local/bin/mysql''
   \<and> NewClientFromConfig branch_missing = None
   \<and> DatabaseBranches_Get branch_missing = Some (ErrorString ''Not Found'')
   \<and> ErrCode branch_missing (ErrorString ''Not Found'') = ErrNotFound
   \<and> fst (RunE branch_missing [''shop'', ''main''] fresh) =
       Return (Some (ErrorString
         (''database '' @ esc @ ''[34;1mshop'' @ esc @ ''[0m and branch '' @ esc @ ''[34;1mmain''
          @ esc @ ''[0m does not exist in organization '' @ esc @ ''[34;1macme'' @ esc @ ''[0m'')))
   \<and> files (snd (RunE branch_missing [''shop'', ''main''] fresh)) ''/tmp/pscale-123456789'' = None
   \<and> tunnel (snd (RunE branch_missing [''shop'', ''main''] fresh)) = None
   \<and> trace (snd (RunE branch_missing [''shop'', ''main''] fresh)) = [Validator]"
proof -
  have h: "IsTTY branch_missing" "Format branch_missing = Human"
    "MySQLClientPath branch_missing = Inr ''/usr/local/bin/mysql''"
    "NewClientFromConfig branch_missing = None"
    "if length [''shop'', ''main''] = 2 \<and> [''shop'', ''main''] ! 1 \<noteq> []
     then ''main'' = [''shop'', ''main''] ! 1 else GetBranch branch_missing = Inr ''main''"
    "DatabaseBranches_Get branch_missing = Some (ErrorString ''Not Found'')"
    "ErrCode branch_missing (ErrorString ''Not Found'') = ErrNotFound"
    by (simp_all add: scenario_defs)
  have d: "BoldBlue branch_missing x = esc @ ''[34;1m'' @ x @ esc @ ''[0m''"
    "Organization branch_missing = ''acme''" for x
    by (simp_all add: scenario_defs)
  from RunE_branch_not_found [OF refl h, of fresh] h(1-4,6,7) show ?thesis
    by (simp add: d) (simp add: fresh_def)
qed

section \<open>The capability check\<close>

lemma checkLibs_error_not_linked:
  "snd (checkLibs ch mysqlPath) = Some e \<Longrightarrow> fst (checkLibs ch mysqlPath) = False"
  by (auto simp: checkLibs_def Let_def split: if_splits prod.splits option.splits)

text \<open>
  C8 does not hold on every platform without introspection. What the code does, for
  every path of the client binary: whenever \<open>checkLibs\<close> returns an error, the capability
  is "not linked", \<open>Run\<close> goes on to \<open>c.Start()\<close> and ends as the start and the wait of the
  client decide, the client gets no \<open>MYSQL_PS1\<close>, and the failure is printed if \<open>debug\<close>
  is set and nothing is printed otherwise, as C8 says; and on linux and on unix
  \<open>checkLibs\<close> reports "not linked" with no error, without running anything, as C8 says.
  But the switch of \<open>checkLibs\<close> names no other platform: on one that is neither darwin,
  linux nor unix (freebsd, windows) it goes on to run a command with the empty name,
  and when that fails, as running no command does, it reports "not linked" with an
  error, where C8 says: without error.
\<close>

theorem checkLibs_failure_is_not_fatal:
  "(GOOS ch = ''linux'' \<or> GOOS ch = ''unix'' \<longrightarrow> checkLibs ch mysqlPath = (False, None))
   \<and> (\<forall>out err.
         GOOS ch \<noteq> ''linux'' \<and> GOOS ch \<noteq> ''unix''
         \<and> CombinedOutput ch (if GOOS ch = ''darwin'' then ''otool'' else [])
              ((if GOOS ch = ''darwin'' then [''-L''] else []) @ [mysqlPath]) = (out, Some err)
         \<longrightarrow> checkLibs ch mysqlPath =
               (False, Some (ErrorString (''failed to check linking: '' @ Error err @ newline
                                          @ ''output: '' @ out))))
   \<and> (\<forall>e m args s.
         snd (checkLibs ch mysqlPath) = Some e \<and> m_mysqlPath m = mysqlPath
         \<longrightarrow> fst (checkLibs ch mysqlPath) = False
           \<and> fst (mysql_Run ch m args s) =
               (case Start ch of Some err \<Rightarrow> Fatal err | None \<Rightarrow> Return (Wait ch))
           \<and> trace (snd (mysql_Run ch m args s)) = trace s @ [CapabilityDetector, Launcher]
           \<and> printed (snd (mysql_Run ch m args s)) =
               printed s @ (if m_debug m then [''failed to check linking: '' @ Error e] else [])
           \<and> (Start ch = None \<longrightarrow>
                proc (snd (mysql_Run ch m args s)) =
                  Some \<lparr>Path = mysqlPath, Args = mysqlPath # args,
                        Env = Environ ch @ [''MYSQL_HISTFILE='' @ m_historyFile m],
                        Dir = m_dir m\<rparr>))"
proof (intro conjI allI impI)
  assume "GOOS ch = ''linux'' \<or> GOOS ch = ''unix''"
  then show "checkLibs ch mysqlPath = (False, None)"
    by (auto simp: checkLibs_def)
next
  fix out err
  assume "GOOS ch \<noteq> ''linux'' \<and> GOOS ch \<noteq> ''unix''
         \<and> CombinedOutput ch (if GOOS ch = ''darwin'' then ''otool'' else [])
              ((if GOOS ch = ''darwin'' then [''-L''] else []) @ [mysqlPath]) = (out, Some err)"
  then show "checkLibs ch mysqlPath =
               (False, Some (ErrorString (''failed to check linking: '' @ Error err @ newline
                                          @ ''output: '' @ out)))"
    by (auto simp: checkLibs_def Let_def split: if_splits)
next
  fix e and m :: mysql and args s
  assume a: "snd (checkLibs ch mysqlPath) = Some e \<and> m_mysqlPath m = mysqlPath"
  then show "fst (checkLibs ch mysqlPath) = False"
    by (simp add: checkLibs_error_not_linked)
  show "fst (mysql_Run ch m args s) =
               (case Start ch of Some err \<Rightarrow> Fatal err | None \<Rightarrow> Return (Wait ch))"
    by (rule mysql_Run_fst)
  show "trace (snd (mysql_Run ch m args s)) = trace s @ [CapabilityDetector, Launcher]"
    by (rule mysql_Run_trace)
  show "printed (snd (mysql_Run ch m args s)) =
               printed s @ (if m_debug m then [''failed to check linking: '' @ Error e] else [])"
    using a by (simp add: mysql_Run_printed)
  assume "Start ch = None"
  then show "proc (snd (mysql_Run ch m args s)) =
                  Some \<lparr>Path = mysqlPath, Args = mysqlPath # args,
                        Env = Environ ch @ [''MYSQL_HISTFILE='' @ m_historyFile m],
                        Dir = m_dir m\<rparr>"
    using a by (simp add: mysql_Run_proc checkLibs_error_not_linked)
qed

theorem checkLibs_failure_is_not_fatal_witness:
  "GOOS on_linux = ''linux''
   \<and> checkLibs on_linux ''/usr/local/bin/mysql'' = (False, None)
   \<and> snd (checkLibs otool_fails ''/usr/local/bin/mysql'')
       = Some (ErrorString (''failed to check linking: exit status 1'' @ newline
                            @ ''output: otool: error''))
   \<and> fst (checkLibs otool_fails ''/usr/local/bin/mysql'') = False
   \<and> fst (mysql_Run otool_fails
             \<lparr>m_mysqlPath = ''/usr/local/bin/mysql'', m_dir = [], m_styledBranch = ''shop/main> '',
              m_historyFile = ''/Users/op/.pscale/history/acme.shop.main'', m_debug = False\<rparr>
             [''-s''] fresh) = Return None
   \<and> printed (snd (mysql_Run otool_fails
             \<lparr>m_mysqlPath = ''/usr/local/bin/mysql'', m_dir = [], m_styledBranch = ''shop/main> '',
              m_historyFile = ''/Users/op/.pscale/history/acme.shop.main'', m_debug = False\<rparr>
             [''-s''] fresh)) = []
   \<and> printed (snd (mysql_Run otool_fails
             \<lparr>m_mysqlPath = ''/usr/local/bin/mysql'', m_dir = [], m_styledBranch = ''shop/main> '',
              m_historyFile = ''/Users/op/.pscale/history/acme.shop.main'', m_debug = True\<rparr>
             [''-s''] fresh))
       = [''failed to check linking: failed to check linking: exit status 1'' @ newline
          @ ''output: otool: error'']
   \<and> GOOS on_freebsd = ''freebsd''
   \<and> CombinedOutput on_freebsd [] [''/usr/local/bin/mysql'']
       = ([], Some (ErrorString ''exec: no command''))
   \<and> checkLibs on_freebsd ''/usr/local/bin/mysql''
       = (False, Some (ErrorString (''failed to check linking: exec: no command'' @ newline
                                    @ ''output: '')))"
proof -
  have g: "GOOS on_linux = ''linux''"
    by (simp add: scenario_defs)
  have fb: "GOOS on_freebsd = ''freebsd''"
    "CombinedOutput on_freebsd [] [''/usr/local/bin/mysql'']
       = ([], Some (ErrorString ''exec: no command''))"
    by (simp_all add: on_freebsd_def acme_run_def)
  from checkLibs_failure_is_not_fatal [of on_freebsd "''/usr/local/bin/mysql''"] fb
  have 5: "checkLibs on_freebsd ''/usr/local/bin/mysql''
       = (False, Some (ErrorString (''failed to check linking: exec: no command'' @ newline
                                    @ ''output: '')))"
    by simp
  have o: "GOOS otool_fails = ''darwin''"
    "CombinedOutput otool_fails ''otool'' [''-L'', ''/usr/local/bin/mysql'']
       = (''otool: error'', Some (ExitError 1))"
    "Start otool_fails = None" "Wait otool_fails = None"
    by (simp_all add: scenario_defs)
  have e: "Error (ExitError 1) = ''exit status 1''"
    by (simp add: digit_def)
  have f: "printed fresh = []"
    by (simp add: fresh_def)
  note t1 = checkLibs_failure_is_not_fatal [of on_linux "''/usr/local/bin/mysql''"]
  note t2 = checkLibs_failure_is_not_fatal [of otool_fails "''/usr/local/bin/mysql''"]
  from t1 g have 1: "checkLibs on_linux ''/usr/local/bin/mysql'' = (False, None)"
    by blast
  from t2 o(1,2) have 2: "checkLibs otool_fails ''/usr/local/bin/mysql'' =
      (False, Some (ErrorString (''failed to check linking: exit status 1'' @ newline
                            @ ''output: otool: error'')))"
    by (simp add: digit_def)
  from t2 [THEN conjunct2, THEN conjunct2, rule_format,
      of "ErrorString (''failed to check linking: exit status 1'' @ newline
                            @ ''output: otool: error'')"
         "\<lparr>m_mysqlPath = ''/usr/local/bin/mysql'', m_dir = [], m_styledBranch = ''shop/main> '',
              m_historyFile = ''/Users/op/.pscale/history/acme.shop.main'', m_debug = False\<rparr>"
         "[''-s'']" fresh] 2 o f
  have 3: "fst (mysql_Run otool_fails
             \<lparr>m_mysqlPath = ''/usr/local/bin/mysql'', m_dir = [], m_styledBranch = ''shop/main> '',
              m_historyFile = ''/Users/op/.pscale/history/acme.shop.main'', m_debug = False\<rparr>
             [''-s''] fresh) = Return None"
    "printed (snd (mysql_Run otool_fails
             \<lparr>m_mysqlPath = ''/usr/local/bin/mysql'', m_dir = [], m_styledBranch = ''shop/main> '',
              m_historyFile = ''/Users/op/.pscale/history/acme.shop.main'', m_debug = False\<rparr>
             [''-s''] fresh)) = []"
    by simp_all
  from t2 [THEN conjunct2, THEN conjunct2, rule_format,
      of "ErrorString (''failed to check linking: exit status 1'' @ newline
                            @ ''output: otool: error'')"
         "\<lparr>m_mysqlPath = ''/usr/local/bin/mysql'', m_dir = [], m_styledBranch = ''shop/main> '',
              m_historyFile = ''/Users/op/.pscale/history/acme.shop.main'', m_debug = True\<rparr>"
         "[''-s'']" fresh] 2 o f
  have 4: "printed (snd (mysql_Run otool_fails
             \<lparr>m_mysqlPath = ''/usr/local/bin/mysql'', m_dir = [], m_styledBranch = ''shop/main> '',
              m_historyFile = ''/Users/op/.pscale/history/acme.shop.main'', m_debug = True\<rparr>
             [''-s''] fresh))
       = [''failed to check linking: failed to check linking: exit status 1'' @ newline
          @ ''output: otool: error'']"
    by simp
  from g 1 2 3 4 fb 5 show ?thesis
    by simp
qed

section \<open>The order of the components\<close>

lemma ranked_from_mono: "ranked_from k cs \<Longrightarrow> j \<le> k \<Longrightarrow> ranked_from j cs"
  by (cases cs) auto

lemma ranked_from_sorted:
  "ranked_from k cs \<Longrightarrow>
   sorted_wrt (<) (map code_rank cs) \<and> (\<forall>c\<in>set cs. k \<le> code_rank c)"
proof (induction cs arbitrary: k)
  case Nil
  then show ?case by simp
next
  case (Cons c cs)
  from Cons.prems have "k \<le> code_rank c" and "ranked_from (Suc (code_rank c)) cs"
    by simp_all
  with Cons.IH [of "Suc (code_rank c)"] show ?case
    by fastforce
qed

lemma RunE_session_suffix:
  "trace (snd (RunE_session ch mysqlPath database branch tmpFile s)) = trace s
   \<or> trace (snd (RunE_session ch mysqlPath database branch tmpFile s))
       = trace s @ [CapabilityDetector, Launcher]"
  by (simp add: RunE_session_def mysql_Run_trace split: sum.split prod.split)

lemma RunE_login_ranked:
  "\<exists>suf. trace (snd (RunE_login ch mysqlPath database branch status s)) = trace s @ suf
         \<and> ranked_from 4 suf \<and> CredentialBroker \<notin> set suf"
proof (cases "TempFile ch")
  case (Inl err)
  then show ?thesis
    by (simp add: RunE_login_def case_prod_beta createLoginFile_fst createLoginFile_frame)
next
  case (Inr tmpFile)
  let ?s1 = "snd (createLoginFile ch (User status) (Password status)
                    (s\<lparr>trace := trace s @ [CredentialFile]\<rparr>))"
  let ?r = "RunE_session ch mysqlPath database branch tmpFile ?s1"
  have login: "RunE_login ch mysqlPath database branch status s =
      (if tmpFile \<noteq> [] then deferred_Remove ch tmpFile ?r else ?r)"
    using Inr by (simp add: RunE_login_def case_prod_beta createLoginFile_fst Let_def)
  have s1: "trace ?s1 = trace s @ [CredentialFile]"
    by (simp add: createLoginFile_frame)
  from RunE_session_suffix [of ch mysqlPath database branch tmpFile ?s1]
  show ?thesis
    unfolding login
    by (cases "fst ?r") (auto simp: s1 deferred_Remove_trace)
qed

lemma RunE_proxy_ranked:
  "\<exists>suf. trace (snd (RunE_proxy ch mysqlPath database branch s)) = trace s @ suf
         \<and> ranked_from 2 suf \<and> (CredentialBroker \<in> set suf \<longrightarrow> TunnelStart \<in> set suf)"
proof -
  have *: "\<exists>suf. trace (snd (RunE_login ch mysqlPath database branch status s')) = trace s @ suf
         \<and> ranked_from 2 suf \<and> (CredentialBroker \<in> set suf \<longrightarrow> TunnelStart \<in> set suf)"
    if "trace s' = trace s @ [TunnelStart, CredentialBroker]" for status s'
  proof -
    from RunE_login_ranked [of ch mysqlPath database branch status s'] obtain suf where
      "trace (snd (RunE_login ch mysqlPath database branch status s')) = trace s' @ suf"
      "ranked_from 4 suf"
      by blast
    with that have
      "trace (snd (RunE_login ch mysqlPath database branch status s'))
         = trace s @ (TunnelStart # CredentialBroker # suf)"
      "ranked_from 2 (TunnelStart # CredentialBroker # suf)"
      "TunnelStart \<in> set (TunnelStart # CredentialBroker # suf)"
      by simp_all
    then show ?thesis
      by blast
  qed
  show ?thesis
    by (simp add: RunE_proxy_def Let_def * split: option.split sum.split)
qed

lemma RunE_ranked:
  "\<exists>suf. trace (snd (RunE ch args s)) = trace s @ suf
         \<and> ranked_from 0 suf \<and> (CredentialBroker \<in> set suf \<longrightarrow> TunnelStart \<in> set suf)"
proof -
  have *: "\<exists>suf. trace (snd (RunE_proxy ch mysqlPath database branch s')) = trace s @ suf
         \<and> ranked_from 0 suf \<and> (CredentialBroker \<in> set suf \<longrightarrow> TunnelStart \<in> set suf)"
    if "trace s' = trace s @ pre @ [Validator]" and "pre = [] \<or> pre = [Resolver]"
    for mysqlPath database branch s' pre
  proof -
    from RunE_proxy_ranked [of ch mysqlPath database branch s'] obtain suf where
      1: "trace (snd (RunE_proxy ch mysqlPath database branch s')) = trace s' @ suf"
      "ranked_from 2 suf" "CredentialBroker \<in> set suf \<longrightarrow> TunnelStart \<in> set suf"
      by blast
    from 1(2) have "ranked_from (Suc (Suc 0)) suf"
      by (simp add: numeral_2_eq_2)
    with 1 that have
      "trace (snd (RunE_proxy ch mysqlPath database branch s'))
         = trace s @ (pre @ Validator # suf)"
      "ranked_from 0 (pre @ Validator # suf)"
      "CredentialBroker \<in> set (pre @ Validator # suf) \<longrightarrow> TunnelStart \<in> set (pre @ Validator # suf)"
      by auto
    then show ?thesis
      by blast
  qed
  have v: "\<exists>suf. trace s @ pre @ [Validator] = trace s @ suf
         \<and> ranked_from 0 suf \<and> (CredentialBroker \<in> set suf \<longrightarrow> TunnelStart \<in> set suf)"
    if "pre = [] \<or> pre = [Resolver]" for pre
    using that by auto
  show ?thesis
    by (simp add: RunE_def Let_def * [where pre="[]", simplified] * [where pre="[Resolver]", simplified]
        v [where pre="[]", simplified] v [where pre="[Resolver]", simplified]
        split: list.split option.split sum.split)
qed


text \<open>
  C5, as the code has it. In every run the components are called in the order
  Resolver, Validator, tunnel start, Credential Broker, credential file, Capability
  Detector, Launcher, removal of the credential file, each at most once (a run that
  stops early, or is given its branch, leaves some out); and whenever the Credential
  Broker asks for the status of the branch, the tunnel has been started before.
\<close>

theorem RunE_components_in_code_order:
  "\<exists>suf. trace (snd (RunE ch args s)) = trace s @ suf
         \<and> sorted_wrt (<) (map code_rank suf)
         \<and> (CredentialBroker \<in> set suf \<longrightarrow> TunnelStart \<in> set suf)"
proof -
  from RunE_ranked [of ch args s] obtain suf where
    "trace (snd (RunE ch args s)) = trace s @ suf" "ranked_from 0 suf"
    "CredentialBroker \<in> set suf \<longrightarrow> TunnelStart \<in> set suf"
    by blast
  with ranked_from_sorted [of 0 suf] show ?thesis
    by blast
qed

theorem RunE_components_in_code_order_witness:
  "trace (snd (RunE acme_run [''shop''] fresh)) =
     [Resolver, Validator, TunnelStart, CredentialBroker, CredentialFile, CapabilityDetector,
      Launcher, CredentialFileRemoval]
   \<and> sorted_wrt (<) (map code_rank (trace (snd (RunE acme_run [''shop''] fresh))))
   \<and> CredentialBroker \<in> set (trace (snd (RunE acme_run [''shop''] fresh)))
   \<and> TunnelStart \<in> set (trace (snd (RunE acme_run [''shop''] fresh)))"
proof -
  from RunE_components_in_code_order [of acme_run "[''shop'']" fresh] obtain suf where
    s: "trace (snd (RunE acme_run [''shop''] fresh)) = trace fresh @ suf"
      "sorted_wrt (<) (map code_rank suf)"
      "CredentialBroker \<in> set suf \<longrightarrow> TunnelStart \<in> set suf"
    by blast
  have "trace fresh = []"
    by (simp add: fresh_def)
  with s have "suf = trace (snd (RunE acme_run [''shop''] fresh))"
    by simp
  with s(2,3) have
    "sorted_wrt (<) (map code_rank (trace (snd (RunE acme_run [''shop''] fresh))))"
    "CredentialBroker \<in> set (trace (snd (RunE acme_run [''shop''] fresh)))
       \<longrightarrow> TunnelStart \<in> set (trace (snd (RunE acme_run [''shop''] fresh)))"
    by simp_all
  moreover have "CredentialBroker \<in> set (trace (snd (RunE acme_run [''shop''] fresh)))"
    by (simp add: acme_run_chosen_branch_trace)
  ultimately show ?thesis
    using acme_run_chosen_branch_trace by blast
qed

text \<open>
  C5 as stated fails: in the scenario, with the branch left to the Resolver, the
  tunnel is started before the Credential Broker asks for the status, so the trace is
  not in the order of the specification's control flow.
\<close>

theorem tunnel_started_before_status:
  "trace (snd (RunE acme_run [''shop''] fresh)) =
     [Resolver, Validator, TunnelStart, CredentialBroker, CredentialFile, CapabilityDetector,
      Launcher, CredentialFileRemoval]
   \<and> \<not> sorted (map spec_rank (trace (snd (RunE acme_run [''shop''] fresh))))"
  by (simp add: acme_run_chosen_branch_trace)

section \<open>The path of the history file\<close>

lemma split_sep_not_Nil: "split_sep s \<noteq> []"
  by (induction s) (auto split: list.splits)

lemma split_sep_no_sep: "CHR ''/'' \<notin> set f \<Longrightarrow> split_sep f = [f]"
  by (induction f) auto

lemma split_sep_append:
  "split_sep (xs @ CHR ''/'' # ys) = split_sep xs @ split_sep ys"
proof (induction xs)
  case Nil
  then show ?case by simp
next
  case (Cons c xs)
  obtain e es where "split_sep xs = e # es"
    using split_sep_not_Nil [of xs] by (cases "split_sep xs") auto
  with Cons show ?case
    by simp
qed

lemma strings_Join_snoc:
  "xs \<noteq> [] \<Longrightarrow> strings_Join (xs @ [f]) sep = strings_Join xs sep @ sep @ f"
  by (induction xs sep rule: strings_Join.induct) auto

lemma Clean_not_Nil: "Clean path \<noteq> []"
  by (simp add: Clean_def Let_def)

lemma Clean_snoc:
  assumes "h \<noteq> []"
  shows "\<exists>pre. \<forall>f. CHR ''/'' \<notin> set f \<and> f \<noteq> [] \<and> f \<noteq> ''.'' \<and> f \<noteq> ''..''
                \<longrightarrow> Clean (h @ ''/'' @ f) = pre @ f"
proof -
  define rooted where "rooted = (hd h = CHR ''/'')"
  define out where "out = foldl (Clean_elem rooted) [] (split_sep h)"
  define pre where "pre = (if rooted then ''/'' else [])
                          @ (if out = [] then [] else strings_Join (rev out) ''/'' @ ''/'')"
  have "Clean (h @ ''/'' @ f) = pre @ f"
    if f: "CHR ''/'' \<notin> set f" "f \<noteq> []" "f \<noteq> ''.''" "f \<noteq> ''..''" for f
  proof -
    have r: "(hd (h @ ''/'' @ f) = CHR ''/'') = rooted"
      using assms by (simp add: rooted_def)
    have "split_sep (h @ ''/'' @ f) = split_sep h @ [f]"
      using f(1) by (simp add: split_sep_append split_sep_no_sep)
    then have o: "foldl (Clean_elem rooted) [] (split_sep (h @ ''/'' @ f)) = f # out"
      using f(2-4) by (simp add: out_def Clean_elem_def)
    have j: "strings_Join (rev (f # out)) ''/'' =
             (if out = [] then [] else strings_Join (rev out) ''/'' @ ''/'') @ f"
      by (simp add: strings_Join_snoc)
    have "Clean (h @ ''/'' @ f) =
            (if rooted then ''/'' @ strings_Join (rev (f # out)) ''/''
             else if strings_Join (rev (f # out)) ''/'' = [] then ''.''
                  else strings_Join (rev (f # out)) ''/'')"
      using assms unfolding Clean_def Let_def r o by simp
    also have "\<dots> = pre @ f"
      using f(2) unfolding j pre_def by simp
    finally show ?thesis .
  qed
  then show ?thesis
    by blast
qed

lemma filepath_Join_2: "h \<noteq> [] \<Longrightarrow> filepath_Join [h, f] = Clean (h @ ''/'' @ f)"
  by (simp add: filepath_Join_def)

lemma historyDir_not_Nil: "filepath_Join [dir, ''.pscale'', ''history''] \<noteq> []"
  by (simp add: filepath_Join_def Clean_not_Nil)

lemma cut_at:
  "c \<notin> set x \<Longrightarrow> c \<notin> set x' \<Longrightarrow> x @ c # r = x' @ c # r' \<Longrightarrow> x = x' \<and> r = r'"
proof (induction x arbitrary: x')
  case Nil
  then show ?case by (cases x') auto
next
  case (Cons a x)
  then show ?case by (cases x') auto
qed

lemma historyFilename_inj:
  assumes "CHR ''.'' \<notin> set org" "CHR ''.'' \<notin> set db"
    and "CHR ''.'' \<notin> set org'" "CHR ''.'' \<notin> set db'"
    and "org @ ''.'' @ db @ ''.'' @ branch = org' @ ''.'' @ db' @ ''.'' @ branch'"
  shows "org = org' \<and> db = db' \<and> branch = branch'"
proof -
  from assms(5) have "org @ CHR ''.'' # (db @ ''.'' @ branch)
                    = org' @ CHR ''.'' # (db' @ ''.'' @ branch')"
    by simp
  from cut_at [OF assms(1,3) this] have 1: "org = org'"
    and "db @ CHR ''.'' # branch = db' @ CHR ''.'' # branch'"
    by simp_all
  from cut_at [OF assms(2,4) this(2)] 1 show ?thesis
    by simp
qed

lemma historyFilename_element:
  assumes "CHR ''/'' \<notin> set org" "CHR ''/'' \<notin> set db" "CHR ''/'' \<notin> set branch"
    and "(org, db, branch) \<noteq> ([], [], [])"
  shows "CHR ''/'' \<notin> set (org @ ''.'' @ db @ ''.'' @ branch)"
    and "org @ ''.'' @ db @ ''.'' @ branch \<noteq> []"
    and "org @ ''.'' @ db @ ''.'' @ branch \<noteq> ''.''"
    and "org @ ''.'' @ db @ ''.'' @ branch \<noteq> ''..''"
proof -
  show "CHR ''/'' \<notin> set (org @ ''.'' @ db @ ''.'' @ branch)"
    using assms(1-3) by simp
  show "org @ ''.'' @ db @ ''.'' @ branch \<noteq> []"
    by simp
  have l: "length (org @ ''.'' @ db @ ''.'' @ branch) = length org + length db + length branch + 2"
    by simp
  show "org @ ''.'' @ db @ ''.'' @ branch \<noteq> ''.''"
  proof
    assume "org @ ''.'' @ db @ ''.'' @ branch = ''.''"
    then have "length (org @ ''.'' @ db @ ''.'' @ branch) = 1" by simp
    with l show False by simp
  qed
  show "org @ ''.'' @ db @ ''.'' @ branch \<noteq> ''..''"
  proof
    assume "org @ ''.'' @ db @ ''.'' @ branch = ''..''"
    then have "length (org @ ''.'' @ db @ ''.'' @ branch) = 2" by simp
    with l have "org = [] \<and> db = [] \<and> branch = []" by simp
    with assms(4) show False by simp
  qed
qed

lemma historyFilePath_Inr:
  "historyFilePath ch org db branch = Inr p \<Longrightarrow>
   \<exists>dir. homedir_Dir ch = Inr dir
        \<and> p = filepath_Join [filepath_Join [dir, ''.pscale'', ''history''],
                              org @ ''.'' @ db @ ''.'' @ branch]"
  by (auto simp: historyFilePath_def Let_def split: sum.splits option.splits if_splits)

text \<open>
  C9, as the code has it. For two sessions with the same home directory whose history
  paths are computed: the same (organization, database, branch) gives the same path,
  whatever the state of the file system; and when the names of the organizations and
  of the databases hold no \<open>.\<close>, none of the six names holds a \<open>/\<close> and neither triple is
  three empty names, the paths are equal only if the triples are.
\<close>

theorem historyFilePath_one_per_triple:
  assumes "homedir_Dir ch = homedir_Dir ch'"
    and "historyFilePath ch org db branch = Inr p"
    and "historyFilePath ch' org' db' branch' = Inr p'"
  shows "((org, db, branch) = (org', db', branch') \<longrightarrow> p = p')
       \<and> (CHR ''.'' \<notin> set org \<union> set db \<union> set org' \<union> set db'
          \<and> CHR ''/'' \<notin> set org \<union> set db \<union> set branch \<union> set org' \<union> set db' \<union> set branch'
          \<and> (org, db, branch) \<noteq> ([], [], []) \<and> (org', db', branch') \<noteq> ([], [], [])
          \<longrightarrow> (p = p' \<longleftrightarrow> (org, db, branch) = (org', db', branch')))"
proof -
  from historyFilePath_Inr [OF assms(2)] historyFilePath_Inr [OF assms(3)] assms(1)
  obtain dir where
    p: "p = filepath_Join [filepath_Join [dir, ''.pscale'', ''history''],
                           org @ ''.'' @ db @ ''.'' @ branch]"
    and p': "p' = filepath_Join [filepath_Join [dir, ''.pscale'', ''history''],
                           org' @ ''.'' @ db' @ ''.'' @ branch']"
    by auto
  have same: "(org, db, branch) = (org', db', branch') \<longrightarrow> p = p'"
    using p p' by simp
  have inj: "(org, db, branch) = (org', db', branch')"
    if d: "CHR ''.'' \<notin> set org \<union> set db \<union> set org' \<union> set db'"
      and sl: "CHR ''/'' \<notin> set org \<union> set db \<union> set branch \<union> set org' \<union> set db' \<union> set branch'"
      and ne: "(org, db, branch) \<noteq> ([], [], [])" "(org', db', branch') \<noteq> ([], [], [])"
      and eq: "p = p'"
  proof -
    let ?h = "filepath_Join [dir, ''.pscale'', ''history'']"
    let ?f = "org @ ''.'' @ db @ ''.'' @ branch"
    let ?f' = "org' @ ''.'' @ db' @ ''.'' @ branch'"
    from Clean_snoc [OF historyDir_not_Nil [of dir]] obtain pre where
      c: "\<And>f. CHR ''/'' \<notin> set f \<Longrightarrow> f \<noteq> [] \<Longrightarrow> f \<noteq> ''.'' \<Longrightarrow> f \<noteq> ''..''
              \<Longrightarrow> Clean (?h @ ''/'' @ f) = pre @ f"
      by blast
    have "p = pre @ ?f"
      unfolding p filepath_Join_2 [OF historyDir_not_Nil]
      using sl ne(1) by (intro c historyFilename_element) auto
    moreover have "p' = pre @ ?f'"
      unfolding p' filepath_Join_2 [OF historyDir_not_Nil]
      using sl ne(2) by (intro c historyFilename_element) auto
    ultimately have "?f = ?f'"
      using eq by simp
    with d historyFilename_inj [of org db org' db' branch branch'] show ?thesis
      by simp
  qed
  from same inj show ?thesis
    by blast
qed

text \<open>
  C9 as stated fails: the name of the history file joins the three names with dots, so
  organization \<open>acme.eu\<close> with database \<open>shop\<close> and organization \<open>acme\<close> with database
  \<open>eu.shop\<close> share one history file.
\<close>

theorem history_file_of_two_triples:
  "historyFilePath acme_run ''acme.eu'' ''shop'' ''main''
     = Inr ''/Users/op/.pscale/history/acme.eu.shop.main''
   \<and> historyFilePath acme_run ''acme'' ''eu.shop'' ''main''
     = Inr ''/Users/op/.pscale/history/acme.eu.shop.main''
   \<and> (''acme.eu'', ''shop'', ''main'') \<noteq> (''acme'', ''eu.shop'', ''main'')"
  by (simp add: run_defs scenario_defs)

theorem historyFilePath_one_per_triple_witness:
  "homedir_Dir acme_run = homedir_Dir acme_run
   \<and> historyFilePath acme_run ''acme'' ''shop'' ''main''
     = Inr ''/Users/op/.pscale/history/acme.shop.main''
   \<and> historyFilePath acme_run ''acme'' ''shop'' ''dev''
     = Inr ''/Users/op/.pscale/history/acme.shop.dev''
   \<and> CHR ''.'' \<notin> set ''acme'' \<union> set ''shop''
   \<and> CHR ''/'' \<notin> set ''acme'' \<union> set ''shop'' \<union> set ''main'' \<union> set ''dev''
   \<and> ''/Users/op/.pscale/history/acme.shop.main'' \<noteq> ''/Users/op/.pscale/history/acme.shop.dev''
   \<and> (''/Users/op/.pscale/history/acme.shop.main'' = ''/Users/op/.pscale/history/acme.shop.dev''
        \<longleftrightarrow> (''acme'', ''shop'', ''main'') = (''acme'', ''shop'', ''dev''))"
proof -
  have a: "historyFilePath acme_run ''acme'' ''shop'' ''main''
     = Inr ''/Users/op/.pscale/history/acme.shop.main''"
    and b: "historyFilePath acme_run ''acme'' ''shop'' ''dev''
     = Inr ''/Users/op/.pscale/history/acme.shop.dev''"
    by (simp_all add: run_defs scenario_defs)
  from historyFilePath_one_per_triple [OF refl a b] a b show ?thesis
    by simp
qed

end
